theory Spec2Isabelle
  imports Main "HOL-Library.AList"
begin

section \<open>Data model\<close>

text \<open>
  The workflow controller of \<^verbatim>\<open>workflow/controller/controller.go\<close>. Kubernetes objects and
  the workflow API types are records holding the fields the controller reads or writes.

  A \<^verbatim>\<open>time.Time\<close> is an instant; it is modelled as the number of nanoseconds since Go's
  zero time (January 1, year 1, 00:00:00 UTC), so \<^verbatim>\<open>IsZero\<close> is equality with 0 and
  \<^verbatim>\<open>a.After(b)\<close> is \<open>b < a\<close>.
\<close>

type_synonym time = int

definition IsZero :: "time \<Rightarrow> bool" where
  "IsZero t = (t = 0)"

definition After :: "time \<Rightarrow> time \<Rightarrow> bool" where
  "After a b = (b < a)"

text \<open>
  Modelled from the spec: the type \<^verbatim>\<open>wfv1.NodePhase\<close> and its constants live in
  \<^verbatim>\<open>api/workflow/v1alpha1\<close>; the spec lists the phases as
  Pending, Running, Succeeded, Skipped, Failed, Error.
\<close>

datatype NodePhase =
  NodePending | NodeRunning | NodeSucceeded | NodeSkipped | NodeFailed | NodeError

text \<open>The decoded outputs of a node are opaque to the controller.\<close>

datatype Outputs = Outputs string

record NodeStatus =
  node_Phase :: NodePhase
  node_Daemoned :: "bool option"
  node_PodIP :: string
  node_Outputs :: "Outputs option"
  node_Message :: string
  node_FinishedAt :: time

text \<open>
  Modelled from the spec: \<^verbatim>\<open>NodeStatus.Completed\<close> is declared in
  \<^verbatim>\<open>api/workflow/v1alpha1\<close>; the spec says that Succeeded, Skipped, Failed and
  Error are the terminal phases.
\<close>

definition Completed :: "NodeStatus \<Rightarrow> bool" where
  "Completed n =
     (node_Phase n = NodeSucceeded \<or> node_Phase n = NodeSkipped \<or>
      node_Phase n = NodeFailed \<or> node_Phase n = NodeError)"

text \<open>
  Modelled from the spec: \<^verbatim>\<open>NodeStatus.IsDaemoned\<close> is declared in
  \<^verbatim>\<open>api/workflow/v1alpha1\<close>; the spec calls \<^verbatim>\<open>daemoned\<close> an optional
  boolean-by-presence (present: the node is a daemon, absent: not daemoned).
  \<^verbatim>\<open>applyUpdates\<close> itself only ever stores \<^verbatim>\<open>nil\<close> or a pointer to \<^verbatim>\<open>true\<close>.
\<close>

definition IsDaemoned :: "NodeStatus \<Rightarrow> bool" where
  "IsDaemoned n = (case node_Daemoned n of None \<Rightarrow> False | Some _ \<Rightarrow> True)"

text \<open>Kubernetes: \<^verbatim>\<open>ContainerStateTerminated\<close>, \<^verbatim>\<open>ContainerStatus\<close>, \<^verbatim>\<open>Pod\<close>.
  \<^verbatim>\<open>ExitCode\<close> is an int32 that is only compared with 0 and printed.\<close>

record ContainerStateTerminated =
  term_ExitCode :: int
  term_Message :: string
  term_FinishedAt :: time

record ContainerStatus =
  ctr_Name :: string
  ctr_Ready :: bool
  ctr_Terminated :: "ContainerStateTerminated option"

text \<open>\<^verbatim>\<open>PodUnknown\<close> stands for every phase string the controller's switch sends to its
  default branch.\<close>

datatype PodPhase = PodPending | PodRunning | PodSucceeded | PodFailed | PodUnknown

record Pod =
  pod_Name :: string
  pod_Namespace :: string
  pod_Labels :: "string \<rightharpoonup> string"
  pod_Annotations :: "string \<rightharpoonup> string"
  pod_Phase :: PodPhase
  pod_Message :: string
  pod_PodIP :: string
  pod_InitContainerStatuses :: "ContainerStatus list"
  pod_ContainerStatuses :: "ContainerStatus list"

text \<open>Reading a Go \<^verbatim>\<open>map[string]string\<close> at a missing key gives the empty string.\<close>

definition lookupStr :: "(string \<rightharpoonup> string) \<Rightarrow> string \<Rightarrow> string" where
  "lookupStr m k = (case m k of None \<Rightarrow> [] | Some v \<Rightarrow> v)"

text \<open>
  Modelled from the spec: the label and annotation keys and the container names are
  constants of the package \<^verbatim>\<open>workflow/common\<close>; the spec gives their values.
\<close>

definition LabelKeyWorkflow :: string where
  "LabelKeyWorkflow = ''workflows.argoproj.io/workflow''"

definition LabelKeyCompleted :: string where
  "LabelKeyCompleted = ''workflows.argoproj.io/completed''"

definition AnnotationKeyTemplate :: string where
  "AnnotationKeyTemplate = ''workflows.argoproj.io/template''"

definition AnnotationKeyOutputs :: string where
  "AnnotationKeyOutputs = ''workflows.argoproj.io/outputs''"

definition AnnotationKeyNodeMessage :: string where
  "AnnotationKeyNodeMessage = ''workflows.argoproj.io/node-message''"

definition MainContainerName :: string where
  "MainContainerName = ''main''"

definition WaitContainerName :: string where
  "WaitContainerName = ''wait''"

section \<open>applyUpdates\<close>

text \<open>
  The two loops of \<^verbatim>\<open>applyUpdates\<close> over the init and the main container statuses
  (lines 622-631): the running value is \<^verbatim>\<open>node.FinishedAt\<close>.
\<close>

fun latestFinishedAt :: "ContainerStatus list \<Rightarrow> time \<Rightarrow> time" where
  "latestFinishedAt [] fin = fin"
| "latestFinishedAt (ctr # ctrs) fin =
     (case ctr_Terminated ctr of
        None \<Rightarrow> latestFinishedAt ctrs fin
      | Some t \<Rightarrow>
          if After (term_FinishedAt t) fin then latestFinishedAt ctrs (term_FinishedAt t)
          else latestFinishedAt ctrs fin)"

text \<open>
  \<^verbatim>\<open>applyUpdates(pod, node, newPhase, newDaemonStatus, message)\<close> (lines 570-641) is a
  sequence of five \<^verbatim>\<open>if\<close> statements, each working on the node (passed by pointer and
  mutated) and on the flag \<^verbatim>\<open>updateNeeded\<close>. Each statement is a function from the pair
  (node, updateNeeded) before it to the pair after it.
\<close>

text \<open>Lines 573-583: the phase.\<close>

definition updatePhase :: "NodePhase \<Rightarrow> NodeStatus \<times> bool \<Rightarrow> NodeStatus \<times> bool" where
  "updatePhase newPhase st =
    (case st of (node, updateNeeded) \<Rightarrow>
       if node_Phase node \<noteq> newPhase then
         (if Completed node then (node, updateNeeded)
          else (node\<lparr>node_Phase := newPhase\<rparr>, True))
       else (node, updateNeeded))"

text \<open>Lines 584-600: the daemon flag and the pod IP. A pointer to \<^verbatim>\<open>false\<close> is replaced by
  \<^verbatim>\<open>nil\<close> first.\<close>

definition updateDaemoned :: "Pod \<Rightarrow> bool option \<Rightarrow> NodeStatus \<times> bool \<Rightarrow> NodeStatus \<times> bool" where
  "updateDaemoned pod newDaemonStatus st =
    (case st of (node, updateNeeded) \<Rightarrow>
       (case newDaemonStatus of
          None \<Rightarrow> (node, updateNeeded)
        | Some b \<Rightarrow>
            (let newDaemonStatus' = (if b = False then None else Some b) in
             if (newDaemonStatus' \<noteq> None \<and> node_Daemoned node = None) \<or>
                (newDaemonStatus' = None \<and> node_Daemoned node \<noteq> None)
             then
               (let node' = node\<lparr>node_Daemoned := newDaemonStatus'\<rparr> in
                if pod_PodIP pod \<noteq> node_PodIP node'
                then (node'\<lparr>node_PodIP := pod_PodIP pod\<rparr>, True)
                else (node', True))
             else (node, updateNeeded))))"

text \<open>Lines 601-613: the outputs annotation. \<open>unmarshal\<close> stands for \<^verbatim>\<open>json.Unmarshal\<close> into
  a \<^verbatim>\<open>wfv1.Outputs\<close> (\<open>None\<close>: it returned an error).\<close>

definition updateOutputs ::
  "(string \<Rightarrow> Outputs option) \<Rightarrow> Pod \<Rightarrow> NodeStatus \<times> bool \<Rightarrow> NodeStatus \<times> bool" where
  "updateOutputs unmarshal pod st =
    (case st of (node, updateNeeded) \<Rightarrow>
       (case pod_Annotations pod AnnotationKeyOutputs of
          None \<Rightarrow> (node, updateNeeded)
        | Some outputStr \<Rightarrow>
            if node_Outputs node = None then
              (case unmarshal outputStr of
                 None \<Rightarrow> (node\<lparr>node_Phase := NodeError\<rparr>, True)
               | Some outputs \<Rightarrow> (node\<lparr>node_Outputs := Some outputs\<rparr>, True))
            else (node, updateNeeded)))"

text \<open>Lines 614-617: the message.\<close>

definition updateMessage :: "string \<Rightarrow> NodeStatus \<times> bool \<Rightarrow> NodeStatus \<times> bool" where
  "updateMessage message st =
    (case st of (node, updateNeeded) \<Rightarrow>
       if message \<noteq> [] \<and> node_Message node \<noteq> message
       then (node\<lparr>node_Message := message\<rparr>, updateNeeded)
       else (node, updateNeeded))"

text \<open>Lines 618-639: the time of completion. \<open>now\<close> stands for \<^verbatim>\<open>time.Now().UTC()\<close>.\<close>

definition updateFinishedAt :: "time \<Rightarrow> Pod \<Rightarrow> NodeStatus \<times> bool \<Rightarrow> NodeStatus \<times> bool" where
  "updateFinishedAt now pod st =
    (case st of (node, updateNeeded) \<Rightarrow>
       if Completed node \<and> IsZero (node_FinishedAt node) then
         (let fin1 =
                (if \<not> IsDaemoned node then
                   latestFinishedAt (pod_ContainerStatuses pod)
                     (latestFinishedAt (pod_InitContainerStatuses pod) (node_FinishedAt node))
                 else node_FinishedAt node);
              fin2 = (if IsZero fin1 then now else fin1)
          in (node\<lparr>node_FinishedAt := fin2\<rparr>, True))
       else (node, updateNeeded))"

text \<open>The whole function: the node after the call and the returned \<^verbatim>\<open>updateNeeded\<close>, which
  starts as \<^verbatim>\<open>false\<close>.\<close>

definition applyUpdates ::
  "(string \<Rightarrow> Outputs option) \<Rightarrow> time \<Rightarrow> Pod \<Rightarrow> NodeStatus \<Rightarrow> NodePhase \<Rightarrow> bool option \<Rightarrow> string
     \<Rightarrow> NodeStatus \<times> bool" where
  "applyUpdates unmarshal now pod node newPhase newDaemonStatus message =
     updateFinishedAt now pod
       (updateMessage message
          (updateOutputs unmarshal pod
             (updateDaemoned pod newDaemonStatus
                (updatePhase newPhase (node, False)))))"

section \<open>inferFailedReason\<close>

text \<open>\<^verbatim>\<open>fmt.Sprintf("%d", n)\<close>: the decimal digits of an integer, with a minus sign when it
  is negative.\<close>

fun showNat :: "nat \<Rightarrow> string" where
  "showNat n =
     (if n < 10 then [''0123456789'' ! n]
      else showNat (n div 10) @ [''0123456789'' ! (n mod 10)])"

declare showNat.simps [simp del]

definition showInt :: "int \<Rightarrow> string" where
  "showInt i = (if i < 0 then CHR ''-'' # showNat (nat (- i)) else showNat (nat i))"

text \<open>
  Lines 509-514 and 530-535: the loop over \<^verbatim>\<open>[]string{annotatedMsg, ctr.State.Terminated.Message}\<close>
  appends \<^verbatim>\<open>": " + msg\<close> for the first non-empty \<^verbatim>\<open>msg\<close> and breaks.
\<close>

fun appendFirstNonEmpty :: "string \<Rightarrow> string list \<Rightarrow> string" where
  "appendFirstNonEmpty errMsg [] = errMsg"
| "appendFirstNonEmpty errMsg (msg # msgs) =
     (if msg \<noteq> [] then errMsg @ '': '' @ msg else appendFirstNonEmpty errMsg msgs)"

text \<open>Lines 499-517: the loop over the init container statuses; \<open>Some errMsg\<close> is the
  return inside the loop, \<open>None\<close> is falling out of it.\<close>

fun initContainerFailure :: "string \<Rightarrow> ContainerStatus list \<Rightarrow> string option" where
  "initContainerFailure annotatedMsg [] = None"
| "initContainerFailure annotatedMsg (ctr # ctrs) =
     (case ctr_Terminated ctr of
        None \<Rightarrow> initContainerFailure annotatedMsg ctrs
      | Some t \<Rightarrow>
          if term_ExitCode t = 0 then initContainerFailure annotatedMsg ctrs
          else Some (appendFirstNonEmpty ''failed to load artifacts'' [annotatedMsg, term_Message t]))"

text \<open>Lines 528-543: the message stored in \<^verbatim>\<open>failMessages[ctr.Name]\<close> for a container that
  terminated with a non-zero exit code.\<close>

definition containerFailMessage :: "string \<Rightarrow> string \<Rightarrow> ContainerStateTerminated \<Rightarrow> string" where
  "containerFailMessage annotatedMsg name t =
     (if name = WaitContainerName
      then appendFirstNonEmpty ''failed to save artifacts'' [annotatedMsg, term_Message t]
      else if term_Message t \<noteq> [] then term_Message t
      else ''failed with exit code '' @ showInt (term_ExitCode t))"

text \<open>Lines 518-544: the loop that fills the map \<^verbatim>\<open>failMessages\<close>. The map is an association
  list with one entry per key; \<^const>\<open>AList.update\<close> overwrites the entry of a key that is
  already there.\<close>

fun collectFailMessages ::
  "string \<Rightarrow> ContainerStatus list \<Rightarrow> (string \<times> string) list \<Rightarrow> (string \<times> string) list" where
  "collectFailMessages annotatedMsg [] failMessages = failMessages"
| "collectFailMessages annotatedMsg (ctr # ctrs) failMessages =
     (case ctr_Terminated ctr of
        None \<Rightarrow> collectFailMessages annotatedMsg ctrs failMessages
      | Some t \<Rightarrow>
          if term_ExitCode t = 0 then collectFailMessages annotatedMsg ctrs failMessages
          else collectFailMessages annotatedMsg ctrs
                 (AList.update (ctr_Name ctr) (containerFailMessage annotatedMsg (ctr_Name ctr) t)
                    failMessages))"

text \<open>
  Lines 562-564: \<^verbatim>\<open>for _, failMsg := range failMessages { return ... }\<close> returns the value of
  the entry the iteration visits first. Go leaves the iteration order of a map unspecified
  and its runtime starts each iteration at a random position, so any entry can come first.
  The choice is the parameter \<open>seed\<close>: a different seed stands for a different run of the
  loop.
\<close>

definition rangeFirst :: "nat \<Rightarrow> ('k \<times> 'v) list \<Rightarrow> ('k \<times> 'v) option" where
  "rangeFirst seed m = (if m = [] then None else Some (m ! (seed mod length m)))"

text \<open>\<^verbatim>\<open>inferFailedReason(pod)\<close> (lines 490-566). The second component is the \<^verbatim>\<open>*bool\<close>
  result, always a pointer to \<^verbatim>\<open>false\<close>.\<close>

definition inferFailedReason :: "nat \<Rightarrow> Pod \<Rightarrow> NodePhase \<times> bool option \<times> string" where
  "inferFailedReason seed pod =
    (if pod_Message pod \<noteq> [] then (NodeFailed, Some False, pod_Message pod)
     else
       (let annotatedMsg = lookupStr (pod_Annotations pod) AnnotationKeyNodeMessage in
        (case initContainerFailure annotatedMsg (pod_InitContainerStatuses pod) of
           Some errMsg \<Rightarrow> (NodeError, Some False, errMsg)
         | None \<Rightarrow>
             (let failMessages =
                    collectFailMessages annotatedMsg (pod_ContainerStatuses pod) []
              in
                (case map_of failMessages MainContainerName of
                   Some failMsg \<Rightarrow> (NodeFailed, Some False, failMsg)
                 | None \<Rightarrow>
                     (case map_of failMessages WaitContainerName of
                        Some failMsg \<Rightarrow> (NodeError, Some False, failMsg)
                      | None \<Rightarrow>
                          (case rangeFirst seed failMessages of
                             Some entry \<Rightarrow> (NodeFailed, Some False, snd entry)
                           | None \<Rightarrow>
                               (NodeFailed, Some False, ''pod failed for unknown reason''))))))))"

section \<open>handlePodUpdate\<close>

text \<open>The part of \<^verbatim>\<open>wfv1.Template\<close> the controller reads: the \<^verbatim>\<open>*bool\<close> field
  \<^verbatim>\<open>Daemon\<close>.\<close>

record Template =
  tmpl_Daemon :: "bool option"

record Workflow =
  wf_Nodes :: "string \<rightharpoonup> NodeStatus"

record WorkflowControllerConfig =
  cfg_ExecutorImage :: string
  cfg_ArtifactRepository :: "string option"
  cfg_Namespace :: string
  cfg_MatchLabels :: "string \<rightharpoonup> string"

text \<open>A write request sent to the cluster: \<^verbatim>\<open>wfClient.UpdateWorkflow(wf)\<close> of the client for
  a namespace, on the workflow of a name, and
  \<^verbatim>\<open>common.AddPodLabel(clientset, podName, namespace, key, value)\<close>.\<close>

datatype Request =
  UpdateWorkflow string string Workflow
| AddPodLabel string string string string

text \<open>
  \<^verbatim>\<open>completedPodCache\<close> is a \<^verbatim>\<open>gocache.New(1*time.Hour, 10*time.Minute)\<close>: every entry
  carries the instant at which it expires, and \<^verbatim>\<open>Get\<close> does not find an entry once the clock
  is past that instant (the janitor that deletes expired entries every ten minutes changes
  nothing \<^verbatim>\<open>Get\<close> can see). The cached value is the constant \<^verbatim>\<open>true\<close> and is left out.
  The cache is a library outside the repository; the spec describes it as a mapping from
  pod name to a sentinel, with a per-entry TTL of about one hour and a background expiry
  about every ten minutes.
\<close>

type_synonym Cache = "string \<rightharpoonup> time"

definition defaultExpiration :: time where
  "defaultExpiration = 3600 * 1000000000"

definition cacheGet :: "Cache \<Rightarrow> time \<Rightarrow> string \<Rightarrow> bool" where
  "cacheGet c now k = (case c k of None \<Rightarrow> False | Some expiration \<Rightarrow> \<not> expiration < now)"

definition cacheSetDefault :: "Cache \<Rightarrow> time \<Rightarrow> string \<Rightarrow> Cache" where
  "cacheSetDefault c now k = c(k \<mapsto> now + defaultExpiration)"

text \<open>
  The state a call works on: the fields of \<^verbatim>\<open>WorkflowController\<close> that the modelled functions
  read or write, the workflows stored in the cluster (by namespace and name), and the log of
  the write requests sent to the cluster so far, failed ones included.
\<close>

record System =
  wfc_ConfigMap :: string
  wfc_ConfigMapNS :: string
  wfc_Config :: WorkflowControllerConfig
  wfc_completedPodCache :: Cache
  cluster_workflows :: "string \<times> string \<rightharpoonup> Workflow"
  cluster_requests :: "Request list"

text \<open>
  What a call of \<^verbatim>\<open>handlePodUpdate\<close> takes from outside the program: the clock (one reading
  for the whole call), the position at which the iteration over \<^verbatim>\<open>failMessages\<close> starts,
  \<^verbatim>\<open>json.Unmarshal\<close> into a template and into outputs (\<open>None\<close>: an error), and whether
  each of the three cluster calls fails.
\<close>

record Env =
  env_now :: time
  env_mapSeed :: nat
  env_unmarshalTemplate :: "string \<Rightarrow> Template option"
  env_unmarshalOutputs :: "string \<Rightarrow> Outputs option"
  env_getWorkflowErr :: bool
  env_updateWorkflowErr :: bool
  env_addPodLabelErr :: bool

text \<open>Lines 429-433: the loop over \<^verbatim>\<open>pod.Status.ContainerStatuses\<close> that returns at the first
  container that is not ready; \<open>True\<close> is falling out of the loop.\<close>

fun allReady :: "ContainerStatus list \<Rightarrow> bool" where
  "allReady [] = True"
| "allReady (ctrStatus # ctrs) = (if \<not> ctr_Ready ctrStatus then False else allReady ctrs)"

text \<open>Lines 398-442: the switch on \<^verbatim>\<open>pod.Status.Phase\<close>. \<open>None\<close> is a \<^verbatim>\<open>return\<close> inside
  the switch, \<open>Some (newPhase, newDaemonStatus, message)\<close> the values after it.\<close>

definition derivePhase :: "Env \<Rightarrow> Pod \<Rightarrow> (NodePhase \<times> bool option \<times> string) option" where
  "derivePhase env pod =
    (case pod_Phase pod of
       PodPending \<Rightarrow> None
     | PodSucceeded \<Rightarrow> Some (NodeSucceeded, Some False, [])
     | PodFailed \<Rightarrow> Some (inferFailedReason (env_mapSeed env) pod)
     | PodRunning \<Rightarrow>
         (case pod_Annotations pod AnnotationKeyTemplate of
            None \<Rightarrow> None
          | Some tmplStr \<Rightarrow>
              (case env_unmarshalTemplate env tmplStr of
                 None \<Rightarrow> None
               | Some tmpl \<Rightarrow>
                   if tmpl_Daemon tmpl = None \<or> tmpl_Daemon tmpl = Some False then None
                   else if \<not> allReady (pod_ContainerStatuses pod) then None
                   else Some (NodeSucceeded, Some True, [])))
     | PodUnknown \<Rightarrow> Some (NodeError, None, []))"

text \<open>\<^verbatim>\<open>wfClient.GetWorkflow(workflowName)\<close> of the client for a namespace.\<close>

definition GetWorkflow :: "Env \<Rightarrow> System \<Rightarrow> string \<Rightarrow> string \<Rightarrow> Workflow option" where
  "GetWorkflow env s namespace workflowName =
     (if env_getWorkflowErr env then None else cluster_workflows s (namespace, workflowName))"

text \<open>
  Lines 385-467 of \<^verbatim>\<open>handlePodUpdate\<close>: everything before the decision about the label. The
  result is the state and, when control reaches line 469, the local \<^verbatim>\<open>node\<close> there;
  \<open>None\<close> is a \<^verbatim>\<open>return\<close>.
\<close>

definition reconcileNode :: "Env \<Rightarrow> System \<Rightarrow> Pod \<Rightarrow> System \<times> NodeStatus option" where
  "reconcileNode env s pod =
    (if cacheGet (wfc_completedPodCache s) (env_now env) (pod_Name pod) then (s, None)
     else if lookupStr (pod_Labels pod) LabelKeyCompleted = ''true'' then (s, None)
     else
       case pod_Labels pod LabelKeyWorkflow of
         None \<Rightarrow> (s, None)
       | Some workflowName \<Rightarrow>
           (case derivePhase env pod of
              None \<Rightarrow> (s, None)
            | Some (newPhase, newDaemonStatus, message) \<Rightarrow>
                (case GetWorkflow env s (pod_Namespace pod) workflowName of
                   None \<Rightarrow> (s, None)
                 | Some wflow \<Rightarrow>
                     (case wf_Nodes wflow (pod_Name pod) of
                        None \<Rightarrow> (s, None)
                      | Some node \<Rightarrow>
                          (let (node', updateNeeded) =
                                 applyUpdates (env_unmarshalOutputs env) (env_now env) pod node
                                   newPhase newDaemonStatus message
                           in
                             if \<not> updateNeeded then (s, Some node')
                             else
                               let wf' = wflow\<lparr>wf_Nodes := (wf_Nodes wflow)(pod_Name pod \<mapsto> node')\<rparr>;
                                   s1 = s\<lparr>cluster_requests := cluster_requests s @
                                          [UpdateWorkflow (pod_Namespace pod) workflowName wf']\<rparr>
                               in
                                 if env_updateWorkflowErr env then (s1, None)
                                 else
                                   (s1\<lparr>cluster_workflows := (cluster_workflows s1)
                                          ((pod_Namespace pod, workflowName) \<mapsto> wf')\<rparr>,
                                    Some node'))))))"

text \<open>Lines 469-486 of \<^verbatim>\<open>handlePodUpdate\<close>: the decision about the label
  \<^verbatim>\<open>completed=true\<close>, for the local \<^verbatim>\<open>node\<close>.\<close>

definition labelCompleted :: "Env \<Rightarrow> System \<Rightarrow> Pod \<Rightarrow> NodeStatus \<Rightarrow> System" where
  "labelCompleted env s pod node =
    (if Completed node then
       (if \<not> IsDaemoned node then
          (let s1 = s\<lparr>cluster_requests := cluster_requests s @
                       [AddPodLabel (pod_Name pod) (pod_Namespace pod) LabelKeyCompleted ''true'']\<rparr>
           in
             if env_addPodLabelErr env then s1
             else s1\<lparr>wfc_completedPodCache :=
                       cacheSetDefault (wfc_completedPodCache s1) (env_now env) (pod_Name pod)\<rparr>)
        else s)
     else s)"

text \<open>\<^verbatim>\<open>handlePodUpdate(pod)\<close> (lines 385-487).\<close>

definition handlePodUpdate :: "Env \<Rightarrow> System \<Rightarrow> Pod \<Rightarrow> System" where
  "handlePodUpdate env s pod =
    (case reconcileNode env s pod of
       (s1, None) \<Rightarrow> s1
     | (s1, Some node) \<Rightarrow> labelCompleted env s1 pod node)"

section \<open>updateConfig\<close>

record ConfigMap =
  cm_Namespace :: string
  cm_Data :: "string \<rightharpoonup> string"

text \<open>The errors of the package \<^verbatim>\<open>errors\<close>: \<^verbatim>\<open>errors.Errorf(errors.CodeBadRequest, ...)\<close>
  with its message, and \<^verbatim>\<open>errors.InternalWrapError(err)\<close>.\<close>

datatype Error = BadRequest string | InternalError

definition quoted :: "string \<Rightarrow> string" where
  "quoted s = [CHR 0x27] @ s @ [CHR 0x27]"

text \<open>
  \<^verbatim>\<open>updateConfig(cm)\<close> (lines 166-182). The key \<^verbatim>\<open>common.WorkflowControllerConfigMapKey\<close> is a
  constant of another package and is the parameter \<open>configMapKey\<close>; \<open>unmarshal\<close> stands
  for \<^verbatim>\<open>yaml.Unmarshal\<close> into a fresh \<^verbatim>\<open>WorkflowControllerConfig\<close> (\<open>None\<close>: an error). The
  result is the returned error (\<open>None\<close> is \<^verbatim>\<open>nil\<close>) and the controller after the call.
\<close>

definition updateConfig ::
  "string \<Rightarrow> (string \<Rightarrow> WorkflowControllerConfig option) \<Rightarrow> System \<Rightarrow> ConfigMap
     \<Rightarrow> Error option \<times> System" where
  "updateConfig configMapKey unmarshal wfc cm =
    (case cm_Data cm configMapKey of
       None \<Rightarrow>
         (Some (BadRequest (''ConfigMap '' @ quoted (wfc_ConfigMap wfc) @ '' does not have key '' @
                  quoted configMapKey)), wfc)
     | Some configStr \<Rightarrow>
         (case unmarshal configStr of
            None \<Rightarrow> (Some InternalError, wfc)
          | Some config \<Rightarrow>
              if cfg_ExecutorImage config = []
              then (Some (BadRequest (''ConfigMap '' @ quoted (wfc_ConfigMap wfc) @
                            '' does not have executorImage'')), wfc)
              else (None, wfc\<lparr>wfc_Config := config\<rparr>)))"

section \<open>Definitions used to state the properties\<close>

text \<open>The \<^verbatim>\<open>terminated.finishedAt\<close> of the container statuses that have a terminated state, in
  the order of the list.\<close>

fun terminatedTimes :: "ContainerStatus list \<Rightarrow> time list" where
  "terminatedTimes [] = []"
| "terminatedTimes (ctr # ctrs) =
     (case ctr_Terminated ctr of
        None \<Rightarrow> terminatedTimes ctrs
      | Some t \<Rightarrow> term_FinishedAt t # terminatedTimes ctrs)"

text \<open>The latest of the terminated timestamps of the init and main containers that lie after
  the zero time; the zero time when there is none.\<close>

definition latestTerminated :: "Pod \<Rightarrow> time" where
  "latestTerminated pod =
     Max (insert 0
       (set (terminatedTimes (pod_InitContainerStatuses pod @ pod_ContainerStatuses pod))))"

text \<open>The completion time in the words of the specification: the latest
  \<^verbatim>\<open>terminated.finishedAt\<close> across init and main containers, and the current time when no
  container has a terminated timestamp.\<close>

definition specFinishedAt :: "time \<Rightarrow> Pod \<Rightarrow> time" where
  "specFinishedAt now pod =
     (let ts = terminatedTimes (pod_InitContainerStatuses pod @ pod_ContainerStatuses pod)
      in if ts = [] then now else Max (set ts))"

text \<open>A container status counts as failed when it has a terminated state with a non-zero
  exit code.\<close>

definition ctrFailed :: "ContainerStatus \<Rightarrow> bool" where
  "ctrFailed ctr = (case ctr_Terminated ctr of None \<Rightarrow> False | Some t \<Rightarrow> term_ExitCode t \<noteq> 0)"

definition termMessage :: "ContainerStatus \<Rightarrow> string" where
  "termMessage ctr = (case ctr_Terminated ctr of None \<Rightarrow> [] | Some t \<Rightarrow> term_Message t)"

definition exitCode :: "ContainerStatus \<Rightarrow> int" where
  "exitCode ctr = (case ctr_Terminated ctr of None \<Rightarrow> 0 | Some t \<Rightarrow> term_ExitCode t)"

text \<open>A message "optionally suffixed with \<^verbatim>\<open>": " + m\<close>, \<open>m\<close> being the first non-empty of the
  node-message annotation and \<^verbatim>\<open>terminated.message\<close>".\<close>

definition suffixed :: "string \<Rightarrow> string \<Rightarrow> string \<Rightarrow> string" where
  "suffixed base annotated terminated =
     (if annotated \<noteq> [] then base @ '': '' @ annotated
      else if terminated \<noteq> [] then base @ '': '' @ terminated
      else base)"

text \<open>The message of a failed container other than \<^verbatim>\<open>wait\<close>: its \<^verbatim>\<open>terminated.message\<close>, or
  \<^verbatim>\<open>failed with exit code N\<close> when that is empty.\<close>

definition ownMessage :: "ContainerStatus \<Rightarrow> string" where
  "ownMessage ctr =
     (if termMessage ctr \<noteq> [] then termMessage ctr
      else ''failed with exit code '' @ showInt (exitCode ctr))"

text \<open>The message collected for a failed container.\<close>

definition failMessageOf :: "string \<Rightarrow> ContainerStatus \<Rightarrow> string" where
  "failMessageOf annotated ctr =
     (if ctr_Name ctr = WaitContainerName
      then suffixed ''failed to save artifacts'' annotated (termMessage ctr)
      else ownMessage ctr)"

text \<open>The last failed container status of a given name in a list (container names are
  unique in a pod, so there is at most one).\<close>

fun lastFailedNamed :: "string \<Rightarrow> ContainerStatus list \<Rightarrow> ContainerStatus option" where
  "lastFailedNamed name [] = None"
| "lastFailedNamed name (ctr # ctrs) =
     (case lastFailedNamed name ctrs of
        Some c \<Rightarrow> Some c
      | None \<Rightarrow> if ctrFailed ctr \<and> ctr_Name ctr = name then Some ctr else None)"

text \<open>The requests of a log that label a pod.\<close>

fun isLabelRequest :: "Request \<Rightarrow> bool" where
  "isLabelRequest (AddPodLabel name namespace key val) = True"
| "isLabelRequest (UpdateWorkflow namespace name wflow) = False"

definition labelRequests :: "Request list \<Rightarrow> Request list" where
  "labelRequests rs = filter isLabelRequest rs"

text \<open>The dispatch loop restricted to pod events: \<^verbatim>\<open>handlePodUpdate\<close> on a sequence of
  observations, each with what it takes from outside.\<close>

fun handlePodUpdates :: "(Env \<times> Pod) list \<Rightarrow> System \<Rightarrow> System" where
  "handlePodUpdates [] s = s"
| "handlePodUpdates ((env, pod) # evs) s = handlePodUpdates evs (handlePodUpdate env s pod)"

section \<open>Definitions unfolded together when evaluating examples\<close>

lemmas stage_defs = applyUpdates_def updatePhase_def updateDaemoned_def updateOutputs_def
  updateMessage_def updateFinishedAt_def Completed_def IsZero_def IsDaemoned_def After_def
  Let_def AnnotationKeyOutputs_def AnnotationKeyTemplate_def LabelKeyWorkflow_def

lemmas infer_defs = inferFailedReason_def lookupStr_def containerFailMessage_def rangeFirst_def
  AnnotationKeyNodeMessage_def MainContainerName_def WaitContainerName_def showInt_def
  showNat.simps Let_def

lemmas handle_defs = handlePodUpdate_def reconcileNode_def labelCompleted_def derivePhase_def
  GetWorkflow_def cacheGet_def cacheSetDefault_def defaultExpiration_def lookupStr_def
  LabelKeyCompleted_def

section \<open>Example inputs\<close>

text \<open>Stand-ins for the decoders: \<^verbatim>\<open>{}\<close> decodes to empty outputs and to a template
  without a daemon flag, the template \<^verbatim>\<open>{"daemon":true}\<close> to a daemon template, and nothing
  else (in particular not the truncated document \<^verbatim>\<open>{\<close>) decodes.\<close>

definition ex_unmarshalOutputs :: "string \<Rightarrow> Outputs option" where
  "ex_unmarshalOutputs str = (if str = ''{}'' then Some (Outputs str) else None)"

definition ex_daemonTemplate :: string where
  "ex_daemonTemplate = ''{'' @ [CHR 0x22] @ ''daemon'' @ [CHR 0x22] @ '':true}''"

definition ex_unmarshalTemplate :: "string \<Rightarrow> Template option" where
  "ex_unmarshalTemplate str =
     (if str = ex_daemonTemplate then Some \<lparr>tmpl_Daemon = Some True\<rparr>
      else if str = ''{}'' then Some \<lparr>tmpl_Daemon = None\<rparr>
      else None)"

definition ex_terminated :: "string \<Rightarrow> int \<Rightarrow> string \<Rightarrow> time \<Rightarrow> ContainerStatus" where
  "ex_terminated name code msg fin =
     \<lparr>ctr_Name = name, ctr_Ready = False,
      ctr_Terminated = Some \<lparr>term_ExitCode = code, term_Message = msg, term_FinishedAt = fin\<rparr>\<rparr>"

definition ex_running :: "string \<Rightarrow> bool \<Rightarrow> ContainerStatus" where
  "ex_running name ready = \<lparr>ctr_Name = name, ctr_Ready = ready, ctr_Terminated = None\<rparr>"

text \<open>A pod that succeeded: its init container finished at 5, main at 20, wait at 30.\<close>

definition ex_pod :: Pod where
  "ex_pod =
     \<lparr>pod_Name = ''step-1'', pod_Namespace = ''default'',
      pod_Labels = [LabelKeyWorkflow \<mapsto> ''wf-1''], pod_Annotations = Map.empty,
      pod_Phase = PodSucceeded, pod_Message = [], pod_PodIP = ''10.0.0.7'',
      pod_InitContainerStatuses = [ex_terminated ''init'' 0 [] 5],
      pod_ContainerStatuses = [ex_terminated ''main'' 0 [] 20, ex_terminated ''wait'' 0 [] 30]\<rparr>"

text \<open>A running pod of a daemon template whose only container is ready; its init container
  finished at 5.\<close>

definition ex_daemonPod :: Pod where
  "ex_daemonPod =
     ex_pod\<lparr>pod_Phase := PodRunning,
       pod_Annotations := [AnnotationKeyTemplate \<mapsto> ex_daemonTemplate],
       pod_ContainerStatuses := [ex_running ''main'' True]\<rparr>"

definition ex_runningNode :: NodeStatus where
  "ex_runningNode =
     \<lparr>node_Phase = NodeRunning, node_Daemoned = None, node_PodIP = [], node_Outputs = None,
      node_Message = [], node_FinishedAt = 0\<rparr>"

definition ex_failedNode :: NodeStatus where
  "ex_failedNode =
     \<lparr>node_Phase = NodeFailed, node_Daemoned = None, node_PodIP = [], node_Outputs = None,
      node_Message = ''oom'', node_FinishedAt = 50\<rparr>"

definition ex_succeededNode :: NodeStatus where
  "ex_succeededNode =
     \<lparr>node_Phase = NodeSucceeded, node_Daemoned = None, node_PodIP = [], node_Outputs = None,
      node_Message = [], node_FinishedAt = 50\<rparr>"

text \<open>Failed pods: an init container that failed; main and wait both failed; only wait
  failed; only the sidecar \<^verbatim>\<open>db\<close> failed; two sidecars failed.\<close>

definition ex_initFailedPod :: Pod where
  "ex_initFailedPod =
     ex_pod\<lparr>pod_Phase := PodFailed,
       pod_InitContainerStatuses := [ex_terminated ''init'' 1 ''no such key'' 5],
       pod_ContainerStatuses := []\<rparr>"

definition ex_mainWaitFailedPod :: Pod where
  "ex_mainWaitFailedPod =
     ex_pod\<lparr>pod_Phase := PodFailed,
       pod_ContainerStatuses :=
         [ex_terminated ''main'' 2 ''oom'' 20, ex_terminated ''wait'' 1 ''upload 500'' 30]\<rparr>"

definition ex_waitFailedPod :: Pod where
  "ex_waitFailedPod =
     ex_pod\<lparr>pod_Phase := PodFailed,
       pod_ContainerStatuses :=
         [ex_terminated ''main'' 0 [] 20, ex_terminated ''wait'' 1 ''upload 500'' 30]\<rparr>"

definition ex_sidecarFailedPod :: Pod where
  "ex_sidecarFailedPod =
     ex_pod\<lparr>pod_Phase := PodFailed,
       pod_ContainerStatuses :=
         [ex_terminated ''main'' 0 [] 20, ex_terminated ''wait'' 0 [] 30,
          ex_terminated ''db'' 137 [] 31]\<rparr>"

definition ex_twoSidecarsFailedPod :: Pod where
  "ex_twoSidecarsFailedPod =
     ex_pod\<lparr>pod_Phase := PodFailed,
       pod_ContainerStatuses :=
         [ex_terminated ''main'' 0 [] 20, ex_terminated ''wait'' 0 [] 30,
          ex_terminated ''db'' 137 [] 31, ex_terminated ''proxy'' 1 ''boom'' 32]\<rparr>"

text \<open>A controller with an empty cache, and a cluster that stores the workflow \<^verbatim>\<open>wf-1\<close> of
  namespace \<^verbatim>\<open>default\<close>, whose node \<^verbatim>\<open>step-1\<close> is Running. No cluster call fails, the
  clock reads 100.\<close>

definition ex_config :: WorkflowControllerConfig where
  "ex_config =
     \<lparr>cfg_ExecutorImage = ''argoproj/argoexec:latest'', cfg_ArtifactRepository = None,
      cfg_Namespace = [], cfg_MatchLabels = Map.empty\<rparr>"

definition ex_workflow :: Workflow where
  "ex_workflow = \<lparr>wf_Nodes = [''step-1'' \<mapsto> ex_runningNode]\<rparr>"

definition ex_system :: System where
  "ex_system =
     \<lparr>wfc_ConfigMap = ''workflow-controller-configmap'', wfc_ConfigMapNS = ''kube-system'',
      wfc_Config = ex_config, wfc_completedPodCache = Map.empty,
      cluster_workflows = [(''default'', ''wf-1'') \<mapsto> ex_workflow],
      cluster_requests = []\<rparr>"

definition ex_env :: Env where
  "ex_env =
     \<lparr>env_now = 100, env_mapSeed = 0, env_unmarshalTemplate = ex_unmarshalTemplate,
      env_unmarshalOutputs = ex_unmarshalOutputs, env_getWorkflowErr = False,
      env_updateWorkflowErr = False, env_addPodLabelErr = False\<rparr>"

text \<open>A stand-in for the YAML decoder: one document with an executor image, one without,
  nothing else decodes. The config maps hold their payload under the key \<^verbatim>\<open>config\<close>.\<close>

definition ex_yamlUnmarshal :: "string \<Rightarrow> WorkflowControllerConfig option" where
  "ex_yamlUnmarshal str =
     (if str = ''executorImage: argoproj/argoexec:v2''
      then Some (ex_config\<lparr>cfg_ExecutorImage := ''argoproj/argoexec:v2''\<rparr>)
      else if str = ''namespace: argo''
      then Some \<lparr>cfg_ExecutorImage = [], cfg_ArtifactRepository = None,
             cfg_Namespace = ''argo'', cfg_MatchLabels = Map.empty\<rparr>
      else None)"

definition ex_configMap :: "string option \<Rightarrow> ConfigMap" where
  "ex_configMap payload =
     \<lparr>cm_Namespace = ''kube-system'',
      cm_Data = (case payload of None \<Rightarrow> Map.empty | Some str \<Rightarrow> [''config'' \<mapsto> str])\<rparr>"

section \<open>Properties of applyUpdates\<close>

text \<open>The two loops over the container statuses compute a maximum.\<close>

lemma latestFinishedAt_fold:
  "latestFinishedAt ctrs fin = fold max (terminatedTimes ctrs) fin"
proof (induction ctrs arbitrary: fin)
  case Nil
  show ?case by simp
next
  case (Cons ctr ctrs)
  show ?case
  proof (cases "ctr_Terminated ctr")
    case None
    then show ?thesis by (simp add: Cons.IH)
  next
    case (Some t)
    then show ?thesis
      by (cases "fin < term_FinishedAt t") (simp_all add: Cons.IH After_def max_def)
  qed
qed

lemma latestFinishedAt_both:
  "latestFinishedAt ctrs2 (latestFinishedAt ctrs1 fin) =
     Max (insert fin (set (terminatedTimes (ctrs1 @ ctrs2))))"
proof -
  have app: "terminatedTimes (ctrs1 @ ctrs2) = terminatedTimes ctrs1 @ terminatedTimes ctrs2"
    by (induction ctrs1) (simp_all split: option.splits)
  have "latestFinishedAt ctrs2 (latestFinishedAt ctrs1 fin) =
      fold max (terminatedTimes (ctrs1 @ ctrs2)) fin"
    by (simp add: latestFinishedAt_fold app)
  then show ?thesis
    using Max.set_eq_fold [of fin "terminatedTimes (ctrs1 @ ctrs2)"] by simp
qed

text \<open>What each statement leaves alone.\<close>

lemma updatePhase_fields:
  "updatePhase newPhase (node, u) = (node', u') \<Longrightarrow>
     node_Phase node' = (if Completed node then node_Phase node else newPhase) \<and>
     node_Daemoned node' = node_Daemoned node \<and> node_PodIP node' = node_PodIP node \<and>
     node_Outputs node' = node_Outputs node \<and> node_Message node' = node_Message node \<and>
     node_FinishedAt node' = node_FinishedAt node \<and> (u' \<or> (u' = u \<and> node' = node))"
  by (auto simp: updatePhase_def split: if_splits)

lemma updateDaemoned_fields:
  "updateDaemoned pod nd (node, u) = (node', u') \<Longrightarrow>
     node_Phase node' = node_Phase node \<and>
     node_Outputs node' = node_Outputs node \<and> node_Message node' = node_Message node \<and>
     node_FinishedAt node' = node_FinishedAt node \<and> (u' \<or> (u' = u \<and> node' = node))"
  by (auto simp: updateDaemoned_def Let_def split: if_splits option.splits)

lemma updateOutputs_fields:
  "updateOutputs unmarshal pod (node, u) = (node', u') \<Longrightarrow>
     node_Phase node' =
       (case pod_Annotations pod AnnotationKeyOutputs of
          None \<Rightarrow> node_Phase node
        | Some outputStr \<Rightarrow>
            if node_Outputs node = None \<and> unmarshal outputStr = None then NodeError
            else node_Phase node) \<and>
     node_Daemoned node' = node_Daemoned node \<and> node_PodIP node' = node_PodIP node \<and>
     node_Message node' = node_Message node \<and>
     node_FinishedAt node' = node_FinishedAt node \<and> (u' \<or> (u' = u \<and> node' = node))"
  by (auto simp: updateOutputs_def split: if_splits option.splits)

lemma updateMessage_fields:
  "updateMessage message (node, u) = (node', u') \<Longrightarrow>
     node_Phase node' = node_Phase node \<and>
     node_Daemoned node' = node_Daemoned node \<and> node_PodIP node' = node_PodIP node \<and>
     node_Outputs node' = node_Outputs node \<and>
     node_FinishedAt node' = node_FinishedAt node \<and> u' = u \<and>
     node' = node\<lparr>node_Message := node_Message node'\<rparr>"
  by (auto simp: updateMessage_def split: if_splits)

lemma updateFinishedAt_fields:
  "updateFinishedAt now pod (node, u) = (node', u') \<Longrightarrow>
     node_Phase node' = node_Phase node \<and>
     node_Daemoned node' = node_Daemoned node \<and> node_PodIP node' = node_PodIP node \<and>
     node_Outputs node' = node_Outputs node \<and> node_Message node' = node_Message node \<and>
     (u' \<or> (u' = u \<and> node' = node))"
  by (auto simp: updateFinishedAt_def Let_def split: if_splits)

lemma updateFinishedAt_value:
  "updateFinishedAt now pod (node, u) = (node', u') \<Longrightarrow>
     node_FinishedAt node' =
       (if Completed node \<and> IsZero (node_FinishedAt node) then
          (if IsDaemoned node then now
           else if latestTerminated pod = 0 then now else latestTerminated pod)
        else node_FinishedAt node)"
  by (auto simp: updateFinishedAt_def Let_def latestFinishedAt_both latestTerminated_def
        IsZero_def split: if_splits)

text \<open>The five statements in sequence, with the intermediate nodes named.\<close>

lemma applyUpdates_stages:
  obtains n1 u1 n2 u2 n3 u3 n4 u4 n5 u5 where
    "updatePhase newPhase (node, False) = (n1, u1)"
    "updateDaemoned pod newDaemonStatus (n1, u1) = (n2, u2)"
    "updateOutputs unmarshal pod (n2, u2) = (n3, u3)"
    "updateMessage message (n3, u3) = (n4, u4)"
    "updateFinishedAt now pod (n4, u4) = (n5, u5)"
    "applyUpdates unmarshal now pod node newPhase newDaemonStatus message = (n5, u5)"
proof -
  obtain n1 u1 where s1: "updatePhase newPhase (node, False) = (n1, u1)"
    by (cases "updatePhase newPhase (node, False)")
  obtain n2 u2 where s2: "updateDaemoned pod newDaemonStatus (n1, u1) = (n2, u2)"
    by (cases "updateDaemoned pod newDaemonStatus (n1, u1)")
  obtain n3 u3 where s3: "updateOutputs unmarshal pod (n2, u2) = (n3, u3)"
    by (cases "updateOutputs unmarshal pod (n2, u2)")
  obtain n4 u4 where s4: "updateMessage message (n3, u3) = (n4, u4)"
    by (cases "updateMessage message (n3, u3)")
  obtain n5 u5 where s5: "updateFinishedAt now pod (n4, u4) = (n5, u5)"
    by (cases "updateFinishedAt now pod (n4, u4)")
  have "applyUpdates unmarshal now pod node newPhase newDaemonStatus message = (n5, u5)"
    by (simp add: applyUpdates_def s1 s2 s3 s4 s5)
  with s1 s2 s3 s4 s5 show thesis by (rule that)
qed

text \<open>
  C2, as amended. For a node whose phase is terminal on entry to \<^verbatim>\<open>applyUpdates\<close>, whatever
  \<^verbatim>\<open>newPhase\<close>, \<^verbatim>\<open>newDaemonStatus\<close> and \<^verbatim>\<open>message\<close> are: the phase on return is the phase on
  entry, except when the pod carries the outputs annotation, the node has no outputs yet and
  the annotation does not decode; then the phase on return is Error.
\<close>

theorem applyUpdates_terminal_phase:
  assumes "Completed node"
  shows "node_Phase (fst (applyUpdates unmarshal now pod node newPhase newDaemonStatus message)) =
     (case pod_Annotations pod AnnotationKeyOutputs of
        None \<Rightarrow> node_Phase node
      | Some outputStr \<Rightarrow>
          if node_Outputs node = None \<and> unmarshal outputStr = None then NodeError
          else node_Phase node)"
proof -
  obtain n1 u1 n2 u2 n3 u3 n4 u4 n5 u5 where
    s1: "updatePhase newPhase (node, False) = (n1, u1)" and
    s2: "updateDaemoned pod newDaemonStatus (n1, u1) = (n2, u2)" and
    s3: "updateOutputs unmarshal pod (n2, u2) = (n3, u3)" and
    s4: "updateMessage message (n3, u3) = (n4, u4)" and
    s5: "updateFinishedAt now pod (n4, u4) = (n5, u5)" and
    r: "applyUpdates unmarshal now pod node newPhase newDaemonStatus message = (n5, u5)"
    by (rule applyUpdates_stages)
  have p1: "node_Phase n1 = node_Phase node" and o1: "node_Outputs n1 = node_Outputs node"
    using updatePhase_fields [OF s1] assms by simp_all
  have p2: "node_Phase n2 = node_Phase node" and o2: "node_Outputs n2 = node_Outputs node"
    using updateDaemoned_fields [OF s2] p1 o1 by simp_all
  have "node_Phase n5 = node_Phase n3"
    using updateMessage_fields [OF s4] updateFinishedAt_fields [OF s5] by simp
  then show ?thesis
    using updateOutputs_fields [OF s3] p2 o2 r by (simp split: option.splits)
qed

text \<open>
  C7, as amended. Let \<open>node'\<close> be the node after \<^verbatim>\<open>applyUpdates\<close>. A non-zero
  \<^verbatim>\<open>finishedAt\<close> is never overwritten; \<^verbatim>\<open>finishedAt\<close> is left alone when \<open>node'\<close> is
  not terminal; when \<open>node'\<close> is terminal, not daemoned and \<^verbatim>\<open>finishedAt\<close> was zero, it is set
  to the latest \<^verbatim>\<open>terminated.finishedAt\<close> after the zero time across the init and main
  containers, and to the current time when there is none; when \<open>node'\<close> is terminal and
  daemoned and \<^verbatim>\<open>finishedAt\<close> was zero, it is set to the current time, whatever the
  containers' timestamps are.
\<close>

theorem applyUpdates_finishedAt:
  assumes "applyUpdates unmarshal now pod node newPhase newDaemonStatus message = (node', upd)"
  shows "(\<not> IsZero (node_FinishedAt node) \<longrightarrow> node_FinishedAt node' = node_FinishedAt node) \<and>
         (\<not> Completed node' \<longrightarrow> node_FinishedAt node' = node_FinishedAt node) \<and>
         (IsZero (node_FinishedAt node) \<and> Completed node' \<and> \<not> IsDaemoned node' \<longrightarrow>
            node_FinishedAt node' =
              (if latestTerminated pod = 0 then now else latestTerminated pod)) \<and>
         (IsZero (node_FinishedAt node) \<and> Completed node' \<and> IsDaemoned node' \<longrightarrow>
            node_FinishedAt node' = now)"
proof -
  obtain n1 u1 n2 u2 n3 u3 n4 u4 n5 u5 where
    s1: "updatePhase newPhase (node, False) = (n1, u1)" and
    s2: "updateDaemoned pod newDaemonStatus (n1, u1) = (n2, u2)" and
    s3: "updateOutputs unmarshal pod (n2, u2) = (n3, u3)" and
    s4: "updateMessage message (n3, u3) = (n4, u4)" and
    s5: "updateFinishedAt now pod (n4, u4) = (n5, u5)" and
    r: "applyUpdates unmarshal now pod node newPhase newDaemonStatus message = (n5, u5)"
    by (rule applyUpdates_stages)
  have n5: "node' = n5" using r assms by simp
  have fin4: "node_FinishedAt n4 = node_FinishedAt node"
    using updatePhase_fields [OF s1] updateDaemoned_fields [OF s2]
      updateOutputs_fields [OF s3] updateMessage_fields [OF s4] by simp
  have c: "Completed n5 = Completed n4" and d: "IsDaemoned n5 = IsDaemoned n4"
    using updateFinishedAt_fields [OF s5] by (simp_all add: Completed_def IsDaemoned_def)
  show ?thesis
    using updateFinishedAt_value [OF s5] fin4 c d n5 by simp
qed

text \<open>When \<^verbatim>\<open>applyUpdates\<close> returns false, every field of the node other than the message
  has its value from before the call.\<close>

theorem applyUpdates_false_frame:
  assumes "applyUpdates unmarshal now pod node newPhase newDaemonStatus message = (node', False)"
  shows "node' = node\<lparr>node_Message := node_Message node'\<rparr>"
proof -
  obtain n1 u1 n2 u2 n3 u3 n4 u4 n5 u5 where
    s1: "updatePhase newPhase (node, False) = (n1, u1)" and
    s2: "updateDaemoned pod newDaemonStatus (n1, u1) = (n2, u2)" and
    s3: "updateOutputs unmarshal pod (n2, u2) = (n3, u3)" and
    s4: "updateMessage message (n3, u3) = (n4, u4)" and
    s5: "updateFinishedAt now pod (n4, u4) = (n5, u5)" and
    r: "applyUpdates unmarshal now pod node newPhase newDaemonStatus message = (n5, u5)"
    by (rule applyUpdates_stages)
  have e: "node' = n5" "u5 = False" using r assms by simp_all
  have 5: "u4 = False \<and> n5 = n4" using updateFinishedAt_fields [OF s5] e by simp
  have 4: "u3 = False \<and> n4 = n3\<lparr>node_Message := node_Message n4\<rparr>"
    using updateMessage_fields [OF s4] 5 by simp
  have 3: "u2 = False \<and> n3 = n2" using updateOutputs_fields [OF s3] 4 by simp
  have 2: "u1 = False \<and> n2 = n1" using updateDaemoned_fields [OF s2] 3 by simp
  have 1: "n1 = node" using updatePhase_fields [OF s1] 2 by simp
  show ?thesis using e 5 4 3 2 1 by simp
qed


text \<open>
  C1 at a concrete input. The node is Failed with message \<^verbatim>\<open>oom\<close> and a non-zero
  \<^verbatim>\<open>finishedAt\<close>; the pod is Failed with status message \<^verbatim>\<open>evicted\<close>, for which
  \<^verbatim>\<open>inferFailedReason\<close> gives (Failed, false, \<^verbatim>\<open>evicted\<close>). \<^verbatim>\<open>applyUpdates\<close> changes the
  node's message and returns false: lines 614-617 assign \<^verbatim>\<open>node.Message\<close> without setting
  \<^verbatim>\<open>updateNeeded\<close>.
\<close>

theorem applyUpdates_message_unreported:
  "applyUpdates ex_unmarshalOutputs 100 (ex_pod\<lparr>pod_Phase := PodFailed, pod_Message := ''evicted''\<rparr>)
      ex_failedNode NodeFailed (Some False) ''evicted''
     = (ex_failedNode\<lparr>node_Message := ''evicted''\<rparr>, False) \<and>
   node_Message ex_failedNode = ''oom''"
  by (simp add: stage_defs ex_pod_def ex_terminated_def ex_failedNode_def)

text \<open>Witness of C2 as amended: a Failed node stays Failed when a Succeeded pod without an
  outputs annotation is applied to it.\<close>

theorem applyUpdates_terminal_phase_witness:
  "Completed ex_failedNode \<and>
   node_Phase (fst (applyUpdates ex_unmarshalOutputs 100 ex_pod ex_failedNode NodeSucceeded
     (Some False) [])) = NodeFailed"
  using applyUpdates_terminal_phase [of ex_failedNode ex_unmarshalOutputs 100 ex_pod NodeSucceeded
    "Some False" "[]"]
  by (simp add: Completed_def ex_pod_def ex_terminated_def ex_failedNode_def
      AnnotationKeyOutputs_def)

text \<open>
  Counterexample to C2 as stated: a Succeeded node without outputs, and a pod whose outputs
  annotation is the truncated document \<^verbatim>\<open>{\<close>. The phase on return is Error.
\<close>

theorem applyUpdates_terminal_phase_counterexample:
  "Completed ex_succeededNode \<and>
   node_Phase (fst (applyUpdates ex_unmarshalOutputs 100
     (ex_pod\<lparr>pod_Annotations := [AnnotationKeyOutputs \<mapsto> ''{'']\<rparr>) ex_succeededNode NodeSucceeded
     (Some False) [])) = NodeError \<and> node_Phase ex_succeededNode = NodeSucceeded"
  by (simp add: stage_defs ex_pod_def ex_terminated_def ex_succeededNode_def ex_unmarshalOutputs_def)

text \<open>
  Counterexample to C7 as stated: a running daemon pod whose init container terminated at
  time 5 is applied, at time 100, to a Running node with a zero \<^verbatim>\<open>finishedAt\<close>. The node
  becomes Succeeded and daemoned; the latest terminated timestamp is 5, and
  \<^verbatim>\<open>finishedAt\<close> is set to 100, the current time.
\<close>

theorem applyUpdates_finishedAt_counterexample:
  "IsZero (node_FinishedAt ex_runningNode) \<and>
   Completed (fst (applyUpdates ex_unmarshalOutputs 100 ex_daemonPod ex_runningNode NodeSucceeded
     (Some True) [])) \<and>
   specFinishedAt 100 ex_daemonPod = 5 \<and>
   node_FinishedAt (fst (applyUpdates ex_unmarshalOutputs 100 ex_daemonPod ex_runningNode
     NodeSucceeded (Some True) [])) = 100"
  by (auto simp: stage_defs ex_pod_def ex_terminated_def ex_daemonPod_def ex_running_def ex_runningNode_def
      specFinishedAt_def)

text \<open>Witness of C7 as amended: the succeeded pod applied to a Running node at time 100 sets
  \<^verbatim>\<open>finishedAt\<close> to 30, the latest of 5, 20 and 30.\<close>

theorem applyUpdates_finishedAt_witness:
  "IsZero (node_FinishedAt ex_runningNode) \<and>
   Completed (fst (applyUpdates ex_unmarshalOutputs 100 ex_pod ex_runningNode NodeSucceeded
     (Some False) [])) \<and>
   \<not> IsDaemoned (fst (applyUpdates ex_unmarshalOutputs 100 ex_pod ex_runningNode NodeSucceeded
     (Some False) [])) \<and>
   latestTerminated ex_pod = 30 \<and>
   node_FinishedAt (fst (applyUpdates ex_unmarshalOutputs 100 ex_pod ex_runningNode NodeSucceeded
     (Some False) [])) = 30"
proof -
  have r: "applyUpdates ex_unmarshalOutputs 100 ex_pod ex_runningNode NodeSucceeded (Some False) []
      = (ex_runningNode\<lparr>node_Phase := NodeSucceeded, node_FinishedAt := 30\<rparr>, True)"
    by (simp add: stage_defs ex_pod_def ex_terminated_def ex_runningNode_def)
  have l: "latestTerminated ex_pod = 30"
    by (simp add: latestTerminated_def ex_pod_def ex_terminated_def)
  show ?thesis
    using applyUpdates_finishedAt [OF r] l unfolding r
    by (simp add: Completed_def IsDaemoned_def IsZero_def ex_runningNode_def)
qed

text \<open>An instance: the succeeded pod applied to a node that is already Succeeded, with a
  completion time, changes nothing and returns false.\<close>

theorem applyUpdates_false_frame_witness:
  "applyUpdates ex_unmarshalOutputs 100 ex_pod ex_succeededNode NodeSucceeded (Some False) [] =
     (ex_succeededNode, False) \<and>
   ex_succeededNode = ex_succeededNode\<lparr>node_Message := node_Message ex_succeededNode\<rparr>"
proof -
  have r: "applyUpdates ex_unmarshalOutputs 100 ex_pod ex_succeededNode NodeSucceeded
      (Some False) [] = (ex_succeededNode, False)"
    by (simp add: stage_defs ex_pod_def ex_terminated_def ex_succeededNode_def)
  show ?thesis
    using applyUpdates_false_frame [OF r] r by simp
qed

section \<open>Properties of inferFailedReason\<close>

lemma appendFirstNonEmpty_suffixed:
  "appendFirstNonEmpty base [annotated, terminated] = suffixed base annotated terminated"
  by (simp add: suffixed_def)

text \<open>The loop over the init containers returns at the first failed one.\<close>

lemma initContainerFailure_find:
  "initContainerFailure a inits =
     (case List.find ctrFailed inits of
        None \<Rightarrow> None
      | Some c \<Rightarrow> Some (suffixed ''failed to load artifacts'' a (termMessage c)))"
proof (induction inits)
  case Nil
  show ?case by simp
next
  case (Cons ctr inits)
  show ?case
  proof (cases "ctr_Terminated ctr")
    case None
    then show ?thesis by (simp add: Cons.IH ctrFailed_def)
  next
    case (Some t)
    then show ?thesis
      by (simp add: Cons.IH ctrFailed_def termMessage_def suffixed_def)
  qed
qed

lemma containerFailMessage_failMessageOf:
  "ctr_Terminated ctr = Some t \<Longrightarrow>
     containerFailMessage a (ctr_Name ctr) t = failMessageOf a ctr"
  by (simp add: containerFailMessage_def failMessageOf_def ownMessage_def termMessage_def
      exitCode_def suffixed_def)

lemma collectFailMessages_step:
  "collectFailMessages a (ctr # ctrs) acc =
     collectFailMessages a ctrs
       (if ctrFailed ctr then AList.update (ctr_Name ctr) (failMessageOf a ctr) acc else acc)"
  by (cases "ctr_Terminated ctr") (simp_all add: ctrFailed_def containerFailMessage_failMessageOf)

lemma lastFailedNamed_Some:
  "lastFailedNamed name ctrs = Some c \<Longrightarrow> c \<in> set ctrs \<and> ctrFailed c \<and> ctr_Name c = name"
  by (induction ctrs) (auto split: option.splits if_splits)

lemma lastFailedNamed_None:
  "lastFailedNamed name ctrs = None \<longleftrightarrow> (\<forall>c \<in> set ctrs. \<not> (ctrFailed c \<and> ctr_Name c = name))"
  by (induction ctrs) (auto split: option.splits if_splits)

text \<open>What the map holds at a key after the loop over the main containers.\<close>

lemma map_of_collectFailMessages:
  "map_of (collectFailMessages a ctrs acc) k =
     (case lastFailedNamed k ctrs of
        Some c \<Rightarrow> Some (failMessageOf a c)
      | None \<Rightarrow> map_of acc k)"
proof (induction ctrs arbitrary: acc)
  case Nil
  show ?case by simp
next
  case (Cons ctr ctrs)
  show ?case
    unfolding collectFailMessages_step
    by (simp add: Cons.IH update_conv' split: option.splits)
qed

lemma distinct_collectFailMessages:
  "distinct (map fst acc) \<Longrightarrow> distinct (map fst (collectFailMessages a ctrs acc))"
proof (induction ctrs arbitrary: acc)
  case Nil
  then show ?case by simp
next
  case (Cons ctr ctrs)
  then show ?case
    unfolding collectFailMessages_step by (simp add: distinct_update)
qed

lemma keys_collectFailMessages:
  "fst ` set (collectFailMessages a ctrs acc) =
     fst ` set acc \<union> ctr_Name ` {c \<in> set ctrs. ctrFailed c}"
proof (induction ctrs arbitrary: acc)
  case Nil
  show ?case by simp
next
  case (Cons ctr ctrs)
  show ?case
    unfolding collectFailMessages_step
    by (auto simp: Cons.IH dom_update)
qed

lemma length_update_le: "length (AList.update k v al) \<le> Suc (length al)"
  by (induction al) simp_all

lemma length_collectFailMessages:
  "length (collectFailMessages a ctrs acc) \<le> length acc + length (filter ctrFailed ctrs)"
proof (induction ctrs arbitrary: acc)
  case Nil
  show ?case by simp
next
  case (Cons ctr ctrs)
  have "length (AList.update (ctr_Name ctr) (failMessageOf a ctr) acc) \<le> Suc (length acc)"
    by (rule length_update_le)
  then show ?case
    unfolding collectFailMessages_step
    using Cons.IH [of "AList.update (ctr_Name ctr) (failMessageOf a ctr) acc"] Cons.IH [of acc]
    by (simp split: if_splits)
qed

lemma collectFailMessages_empty:
  "collectFailMessages a ctrs [] = [] \<longleftrightarrow> (\<forall>c \<in> set ctrs. \<not> ctrFailed c)"
proof -
  have "collectFailMessages a ctrs [] = [] \<longleftrightarrow> fst ` set (collectFailMessages a ctrs []) = {}"
    by simp
  then show ?thesis
    unfolding keys_collectFailMessages by auto
qed

lemma rangeFirst_Some:
  "m \<noteq> [] \<Longrightarrow> \<exists>e \<in> set m. rangeFirst seed m = Some e"
  by (simp add: rangeFirst_def)

lemma rangeFirst_short:
  "length m \<le> 1 \<Longrightarrow> rangeFirst seed m = rangeFirst seed' m"
  by (cases m) (simp_all add: rangeFirst_def)

text \<open>The entry the iteration visits first belongs to a failed container that is neither
  \<^verbatim>\<open>main\<close> nor \<^verbatim>\<open>wait\<close>, when the map has no entry for those two.\<close>

lemma rangeFirst_sidecar:
  assumes main: "lastFailedNamed MainContainerName ctrs = None"
    and wait: "lastFailedNamed WaitContainerName ctrs = None"
    and some: "\<exists>c \<in> set ctrs. ctrFailed c"
  shows "\<exists>c \<in> set ctrs. ctrFailed c \<and> ctr_Name c \<noteq> MainContainerName \<and>
           ctr_Name c \<noteq> WaitContainerName \<and>
           rangeFirst seed (collectFailMessages a ctrs []) = Some (ctr_Name c, ownMessage c)"
proof -
  let ?fm = "collectFailMessages a ctrs []"
  have "?fm \<noteq> []" using some by (simp add: collectFailMessages_empty)
  then obtain e where e: "e \<in> set ?fm" "rangeFirst seed ?fm = Some e"
    using rangeFirst_Some by blast
  have "distinct (map fst ?fm)" by (simp add: distinct_collectFailMessages)
  with e(1) have "map_of ?fm (fst e) = Some (snd e)" by simp
  then obtain c where c: "lastFailedNamed (fst e) ctrs = Some c" "failMessageOf a c = snd e"
    by (auto simp: map_of_collectFailMessages split: option.splits)
  from c(1) have in_c: "c \<in> set ctrs" "ctrFailed c" "ctr_Name c = fst e"
    using lastFailedNamed_Some by blast+
  have "ctr_Name c \<noteq> MainContainerName"
    using main in_c by (auto simp: lastFailedNamed_None)
  moreover have nw: "ctr_Name c \<noteq> WaitContainerName"
    using wait in_c by (auto simp: lastFailedNamed_None)
  moreover have "e = (ctr_Name c, ownMessage c)"
    using c(2) in_c(3) nw by (simp add: failMessageOf_def prod_eq_iff)
  ultimately show ?thesis using in_c e(2) by blast
qed

text \<open>
  C3. For every pod, \<^verbatim>\<open>inferFailedReason\<close> returns a pointer to false as daemon status, and
  the phase and message by precedence: a non-empty \<^verbatim>\<open>pod.status.message\<close> gives (Failed,
  that message); otherwise the first failed init container gives (Error,
  \<^verbatim>\<open>failed to load artifacts\<close>, suffixed with the first non-empty of the node-message
  annotation and the container's \<^verbatim>\<open>terminated.message\<close>); otherwise a failed \<^verbatim>\<open>main\<close>
  container gives (Failed, its message); otherwise a failed \<^verbatim>\<open>wait\<close> container gives (Error,
  \<^verbatim>\<open>failed to save artifacts\<close>, suffixed likewise); otherwise, when some container failed,
  the result is (Failed, the message of one of the failed sidecars); otherwise it is
  (Failed, \<^verbatim>\<open>pod failed for unknown reason\<close>).
\<close>

theorem inferFailedReason_precedence:
  "(pod_Message pod \<noteq> [] \<longrightarrow>
      inferFailedReason seed pod = (NodeFailed, Some False, pod_Message pod)) \<and>
   (pod_Message pod = [] \<and> List.find ctrFailed (pod_InitContainerStatuses pod) = Some c \<longrightarrow>
      inferFailedReason seed pod =
        (NodeError, Some False,
         suffixed ''failed to load artifacts''
           (lookupStr (pod_Annotations pod) AnnotationKeyNodeMessage) (termMessage c))) \<and>
   (pod_Message pod = [] \<and> List.find ctrFailed (pod_InitContainerStatuses pod) = None \<and>
    lastFailedNamed MainContainerName (pod_ContainerStatuses pod) = Some c \<longrightarrow>
      inferFailedReason seed pod = (NodeFailed, Some False, ownMessage c)) \<and>
   (pod_Message pod = [] \<and> List.find ctrFailed (pod_InitContainerStatuses pod) = None \<and>
    lastFailedNamed MainContainerName (pod_ContainerStatuses pod) = None \<and>
    lastFailedNamed WaitContainerName (pod_ContainerStatuses pod) = Some c \<longrightarrow>
      inferFailedReason seed pod =
        (NodeError, Some False,
         suffixed ''failed to save artifacts''
           (lookupStr (pod_Annotations pod) AnnotationKeyNodeMessage) (termMessage c))) \<and>
   (pod_Message pod = [] \<and> List.find ctrFailed (pod_InitContainerStatuses pod) = None \<and>
    lastFailedNamed MainContainerName (pod_ContainerStatuses pod) = None \<and>
    lastFailedNamed WaitContainerName (pod_ContainerStatuses pod) = None \<and>
    (\<exists>c' \<in> set (pod_ContainerStatuses pod). ctrFailed c') \<longrightarrow>
      (\<exists>c' \<in> set (pod_ContainerStatuses pod).
         ctrFailed c' \<and> ctr_Name c' \<noteq> MainContainerName \<and> ctr_Name c' \<noteq> WaitContainerName \<and>
         inferFailedReason seed pod = (NodeFailed, Some False, ownMessage c'))) \<and>
   (pod_Message pod = [] \<and> List.find ctrFailed (pod_InitContainerStatuses pod) = None \<and>
    List.find ctrFailed (pod_ContainerStatuses pod) = None \<longrightarrow>
      inferFailedReason seed pod = (NodeFailed, Some False, ''pod failed for unknown reason''))"
proof -
  let ?a = "lookupStr (pod_Annotations pod) AnnotationKeyNodeMessage"
  let ?ctrs = "pod_ContainerStatuses pod"
  let ?fm = "collectFailMessages ?a ?ctrs []"
  have message: "inferFailedReason seed pod = (NodeFailed, Some False, pod_Message pod)"
    if "pod_Message pod \<noteq> []"
    using that by (simp add: inferFailedReason_def)
  have init: "inferFailedReason seed pod =
      (NodeError, Some False, suffixed ''failed to load artifacts'' ?a (termMessage c))"
    if "pod_Message pod = []" "List.find ctrFailed (pod_InitContainerStatuses pod) = Some c"
    using that by (simp add: inferFailedReason_def initContainerFailure_find)
  have main: "inferFailedReason seed pod = (NodeFailed, Some False, ownMessage c)"
    if "pod_Message pod = []" "List.find ctrFailed (pod_InitContainerStatuses pod) = None"
      "lastFailedNamed MainContainerName ?ctrs = Some c"
  proof -
    have "ctr_Name c = MainContainerName" using that(3) lastFailedNamed_Some by blast
    then have "failMessageOf ?a c = ownMessage c"
      by (simp add: failMessageOf_def MainContainerName_def WaitContainerName_def)
    then show ?thesis
      using that
      by (simp add: inferFailedReason_def initContainerFailure_find map_of_collectFailMessages)
  qed
  have wait: "inferFailedReason seed pod =
      (NodeError, Some False, suffixed ''failed to save artifacts'' ?a (termMessage c))"
    if "pod_Message pod = []" "List.find ctrFailed (pod_InitContainerStatuses pod) = None"
      "lastFailedNamed MainContainerName ?ctrs = None"
      "lastFailedNamed WaitContainerName ?ctrs = Some c"
  proof -
    have "ctr_Name c = WaitContainerName" using that(4) lastFailedNamed_Some by blast
    then have "failMessageOf ?a c = suffixed ''failed to save artifacts'' ?a (termMessage c)"
      by (simp add: failMessageOf_def)
    then show ?thesis
      using that
      by (simp add: inferFailedReason_def initContainerFailure_find map_of_collectFailMessages)
  qed
  have sidecar: "\<exists>c' \<in> set ?ctrs.
      ctrFailed c' \<and> ctr_Name c' \<noteq> MainContainerName \<and> ctr_Name c' \<noteq> WaitContainerName \<and>
      inferFailedReason seed pod = (NodeFailed, Some False, ownMessage c')"
    if h: "pod_Message pod = []" "List.find ctrFailed (pod_InitContainerStatuses pod) = None"
      "lastFailedNamed MainContainerName ?ctrs = None"
      "lastFailedNamed WaitContainerName ?ctrs = None"
      "\<exists>c' \<in> set ?ctrs. ctrFailed c'"
  proof -
    obtain c' where c': "c' \<in> set ?ctrs" "ctrFailed c'" "ctr_Name c' \<noteq> MainContainerName"
      "ctr_Name c' \<noteq> WaitContainerName" "rangeFirst seed ?fm = Some (ctr_Name c', ownMessage c')"
      using rangeFirst_sidecar [OF h(3) h(4) h(5), of seed ?a] by blast
    have "inferFailedReason seed pod = (NodeFailed, Some False, ownMessage c')"
      using h(1-4) c'(5)
      by (simp add: inferFailedReason_def initContainerFailure_find map_of_collectFailMessages)
    with c' show ?thesis by blast
  qed
  have unknown: "inferFailedReason seed pod =
      (NodeFailed, Some False, ''pod failed for unknown reason'')"
    if "pod_Message pod = []" "List.find ctrFailed (pod_InitContainerStatuses pod) = None"
      "List.find ctrFailed ?ctrs = None"
  proof -
    have none: "\<forall>c' \<in> set ?ctrs. \<not> ctrFailed c'"
      using that(3) by (simp add: find_None_iff)
    then have "?fm = []" by (simp add: collectFailMessages_empty)
    then show ?thesis
      using that(1,2)
      by (simp add: inferFailedReason_def initContainerFailure_find rangeFirst_def)
  qed
  from message init main wait sidecar unknown show ?thesis by blast
qed

text \<open>Witness of C3: one failed pod for each rule of the precedence.\<close>

theorem inferFailedReason_precedence_witness:
  "inferFailedReason 0 (ex_pod\<lparr>pod_Phase := PodFailed, pod_Message := ''evicted''\<rparr>) =
     (NodeFailed, Some False, ''evicted'') \<and>
   inferFailedReason 0 ex_initFailedPod =
     (NodeError, Some False, ''failed to load artifacts: no such key'') \<and>
   inferFailedReason 0 ex_mainWaitFailedPod = (NodeFailed, Some False, ''oom'') \<and>
   inferFailedReason 0 ex_waitFailedPod =
     (NodeError, Some False, ''failed to save artifacts: upload 500'') \<and>
   inferFailedReason 0 ex_sidecarFailedPod =
     (NodeFailed, Some False, ''failed with exit code 137'') \<and>
   inferFailedReason 0 (ex_pod\<lparr>pod_Phase := PodFailed\<rparr>) =
     (NodeFailed, Some False, ''pod failed for unknown reason'')"
proof -
  note spec_defs = ctrFailed_def termMessage_def exitCode_def suffixed_def ownMessage_def
    lookupStr_def MainContainerName_def WaitContainerName_def showInt_def showNat.simps
  have 1: "inferFailedReason 0 (ex_pod\<lparr>pod_Phase := PodFailed, pod_Message := ''evicted''\<rparr>) =
      (NodeFailed, Some False, ''evicted'')"
    using inferFailedReason_precedence
      [where pod = "ex_pod\<lparr>pod_Phase := PodFailed, pod_Message := ''evicted''\<rparr>" and seed = 0]
    by simp
  have 2: "inferFailedReason 0 ex_initFailedPod =
      (NodeError, Some False, ''failed to load artifacts: no such key'')"
    using inferFailedReason_precedence
      [where pod = ex_initFailedPod and c = "ex_terminated ''init'' 1 ''no such key'' 5"
        and seed = 0]
    by (simp add: ex_pod_def ex_terminated_def ex_initFailedPod_def spec_defs)
  have 3: "inferFailedReason 0 ex_mainWaitFailedPod = (NodeFailed, Some False, ''oom'')"
    using inferFailedReason_precedence
      [where pod = ex_mainWaitFailedPod and c = "ex_terminated ''main'' 2 ''oom'' 20"
        and seed = 0]
    by (simp add: ex_pod_def ex_terminated_def ex_mainWaitFailedPod_def spec_defs)
  have 4: "inferFailedReason 0 ex_waitFailedPod =
      (NodeError, Some False, ''failed to save artifacts: upload 500'')"
    using inferFailedReason_precedence
      [where pod = ex_waitFailedPod and c = "ex_terminated ''wait'' 1 ''upload 500'' 30"
        and seed = 0]
    by (simp add: ex_pod_def ex_terminated_def ex_waitFailedPod_def spec_defs)
  have 5: "inferFailedReason 0 ex_sidecarFailedPod =
      (NodeFailed, Some False, ''failed with exit code 137'')"
    using inferFailedReason_precedence [where pod = ex_sidecarFailedPod and seed = 0]
    by (simp add: ex_pod_def ex_terminated_def ex_sidecarFailedPod_def spec_defs)
  have 6: "inferFailedReason 0 (ex_pod\<lparr>pod_Phase := PodFailed\<rparr>) =
      (NodeFailed, Some False, ''pod failed for unknown reason'')"
    using inferFailedReason_precedence
      [where pod = "ex_pod\<lparr>pod_Phase := PodFailed\<rparr>" and seed = 0]
    by (simp add: ex_pod_def ex_terminated_def spec_defs)
  from 1 2 3 4 5 6 show ?thesis by blast
qed

text \<open>
  C8, as amended. Two invocations of \<^verbatim>\<open>inferFailedReason\<close> on the same pod (they differ only
  in where the iteration over the map \<^verbatim>\<open>failMessages\<close> starts) return the same phase and the
  same daemon flag. They return the same message too when the pod has a status message, or
  an init container failed, or a \<^verbatim>\<open>main\<close> or \<^verbatim>\<open>wait\<close> container failed, or at most one
  container failed.
\<close>

theorem inferFailedReason_repeatable:
  "fst (inferFailedReason seed pod) = fst (inferFailedReason seed' pod) \<and>
   fst (snd (inferFailedReason seed pod)) = fst (snd (inferFailedReason seed' pod)) \<and>
   (pod_Message pod \<noteq> [] \<or>
    List.find ctrFailed (pod_InitContainerStatuses pod) \<noteq> None \<or>
    lastFailedNamed MainContainerName (pod_ContainerStatuses pod) \<noteq> None \<or>
    lastFailedNamed WaitContainerName (pod_ContainerStatuses pod) \<noteq> None \<or>
    length (filter ctrFailed (pod_ContainerStatuses pod)) \<le> 1 \<longrightarrow>
      inferFailedReason seed pod = inferFailedReason seed' pod)"
proof -
  let ?a = "lookupStr (pod_Annotations pod) AnnotationKeyNodeMessage"
  let ?fm = "collectFailMessages ?a (pod_ContainerStatuses pod) []"
  have phase: "fst (inferFailedReason seed pod) = fst (inferFailedReason seed' pod)"
    by (simp add: inferFailedReason_def Let_def split: option.splits)
  have flag: "fst (snd (inferFailedReason seed pod)) = fst (snd (inferFailedReason seed' pod))"
    by (simp add: inferFailedReason_def Let_def split: option.splits)
  have early: "inferFailedReason seed pod = inferFailedReason seed' pod"
    if "pod_Message pod \<noteq> [] \<or>
        List.find ctrFailed (pod_InitContainerStatuses pod) \<noteq> None \<or>
        lastFailedNamed MainContainerName (pod_ContainerStatuses pod) \<noteq> None \<or>
        lastFailedNamed WaitContainerName (pod_ContainerStatuses pod) \<noteq> None"
    using that
    by (auto simp: inferFailedReason_def Let_def initContainerFailure_find
        map_of_collectFailMessages split: option.splits)
  have short: "inferFailedReason seed pod = inferFailedReason seed' pod"
    if "length (filter ctrFailed (pod_ContainerStatuses pod)) \<le> 1"
  proof -
    have "length ?fm \<le> 1"
      using length_collectFailMessages [of ?a "pod_ContainerStatuses pod" "[]"] that by simp
    then have "rangeFirst seed ?fm = rangeFirst seed' ?fm" by (rule rangeFirst_short)
    then show ?thesis by (simp add: inferFailedReason_def Let_def split: option.splits)
  qed
  from phase flag early short show ?thesis by blast
qed

text \<open>Witness of C8 as amended: on the pod whose only failure is the sidecar \<^verbatim>\<open>db\<close>, the
  invocations with the iteration started at positions 0 and 1 agree.\<close>

theorem inferFailedReason_repeatable_witness:
  "length (filter ctrFailed (pod_ContainerStatuses ex_sidecarFailedPod)) = 1 \<and>
   inferFailedReason 0 ex_sidecarFailedPod = inferFailedReason 1 ex_sidecarFailedPod"
proof -
  have l: "length (filter ctrFailed (pod_ContainerStatuses ex_sidecarFailedPod)) = 1"
    by (simp add: ex_pod_def ex_terminated_def ex_sidecarFailedPod_def ctrFailed_def)
  then show ?thesis
    using inferFailedReason_repeatable [where seed = 0 and pod = ex_sidecarFailedPod
      and seed' = 1]
    by simp
qed

text \<open>
  Counterexample to C8 as stated: the sidecars \<^verbatim>\<open>db\<close> (exit code 137, no message) and
  \<^verbatim>\<open>proxy\<close> (exit code 1, message \<^verbatim>\<open>boom\<close>) failed, main and wait did not. The invocation
  whose iteration starts at the first entry of the map returns the message of \<^verbatim>\<open>db\<close>, the
  one whose iteration starts at the second entry returns the message of \<^verbatim>\<open>proxy\<close>.
\<close>

theorem inferFailedReason_repeatable_counterexample:
  "inferFailedReason 0 ex_twoSidecarsFailedPod =
     (NodeFailed, Some False, ''failed with exit code 137'') \<and>
   inferFailedReason 1 ex_twoSidecarsFailedPod = (NodeFailed, Some False, ''boom'')"
  by (simp add: infer_defs ex_pod_def ex_terminated_def ex_twoSidecarsFailedPod_def)

section \<open>Properties of handlePodUpdate\<close>

text \<open>
  C4. For every pod observation in which the pod carries the label \<^verbatim>\<open>completed=true\<close> or the
  pod's name is found in the completed-pod cache, \<^verbatim>\<open>handlePodUpdate\<close> returns with the state
  as it was: no workflow write and no pod label write is sent, and the cache is unchanged.
\<close>

theorem handlePodUpdate_completed_noop:
  "cacheGet (wfc_completedPodCache s) (env_now env) (pod_Name pod) \<or>
   pod_Labels pod LabelKeyCompleted = Some ''true'' \<longrightarrow>
     handlePodUpdate env s pod = s"
  by (auto simp: handlePodUpdate_def reconcileNode_def lookupStr_def)

text \<open>Witness of C4: the succeeded pod with the label \<^verbatim>\<open>completed=true\<close>, and the succeeded
  pod when the cache holds its name with an expiration that has not passed.\<close>

theorem handlePodUpdate_completed_noop_witness:
  "pod_Labels (ex_pod\<lparr>pod_Labels := (pod_Labels ex_pod)(LabelKeyCompleted \<mapsto> ''true'')\<rparr>)
     LabelKeyCompleted = Some ''true'' \<and>
   handlePodUpdate ex_env ex_system
     (ex_pod\<lparr>pod_Labels := (pod_Labels ex_pod)(LabelKeyCompleted \<mapsto> ''true'')\<rparr>) = ex_system \<and>
   cacheGet (wfc_completedPodCache (ex_system\<lparr>wfc_completedPodCache := [''step-1'' \<mapsto> 5000]\<rparr>))
     (env_now ex_env) (pod_Name ex_pod) \<and>
   handlePodUpdate ex_env (ex_system\<lparr>wfc_completedPodCache := [''step-1'' \<mapsto> 5000]\<rparr>) ex_pod =
     ex_system\<lparr>wfc_completedPodCache := [''step-1'' \<mapsto> 5000]\<rparr>"
proof -
  have l: "pod_Labels (ex_pod\<lparr>pod_Labels := (pod_Labels ex_pod)(LabelKeyCompleted \<mapsto> ''true'')\<rparr>)
      LabelKeyCompleted = Some ''true''"
    by simp
  have c: "cacheGet
      (wfc_completedPodCache (ex_system\<lparr>wfc_completedPodCache := [''step-1'' \<mapsto> 5000]\<rparr>))
      (env_now ex_env) (pod_Name ex_pod)"
    by (simp add: cacheGet_def ex_env_def ex_pod_def)
  show ?thesis
    using l c
      handlePodUpdate_completed_noop [where env = ex_env and s = ex_system
        and pod = "ex_pod\<lparr>pod_Labels := (pod_Labels ex_pod)(LabelKeyCompleted \<mapsto> ''true'')\<rparr>"]
      handlePodUpdate_completed_noop [where env = ex_env and pod = ex_pod
        and s = "ex_system\<lparr>wfc_completedPodCache := [''step-1'' \<mapsto> 5000]\<rparr>"]
    by blast
qed

text \<open>The part of \<^verbatim>\<open>handlePodUpdate\<close> before the decision about the label sends no label
  request and leaves the cache alone.\<close>

lemma reconcileNode_frame:
  assumes "reconcileNode env s pod = (s1, r)"
  shows "wfc_completedPodCache s1 = wfc_completedPodCache s \<and>
         labelRequests (cluster_requests s1) = labelRequests (cluster_requests s) \<and>
         wfc_Config s1 = wfc_Config s"
  using assms
  by (auto simp: reconcileNode_def Let_def labelRequests_def
      split: if_splits option.splits prod.splits)

lemma reconcileNode_reached:
  assumes "reconcileNode env s pod = (s1, Some node)"
  shows "\<not> cacheGet (wfc_completedPodCache s) (env_now env) (pod_Name pod)"
  using assms by (auto simp: reconcileNode_def split: if_splits)

text \<open>
  C5. Let \<open>r\<close> be the local \<^verbatim>\<open>node\<close> with which \<^verbatim>\<open>handlePodUpdate\<close> reaches its last block
  (line 469), or \<open>None\<close> when it returns before. The call sends the request that labels the
  pod \<^verbatim>\<open>completed=true\<close> if and only if it reaches the last block with a node that is
  terminal and not daemoned; it inserts the pod's name into the completed-pod cache if and
  only if, in addition, that request succeeds; and for a terminal daemoned node the last
  block does nothing at all.
\<close>

theorem handlePodUpdate_labelling:
  assumes "reconcileNode env s pod = (s1, r)"
  shows "labelRequests (cluster_requests (handlePodUpdate env s pod)) =
           labelRequests (cluster_requests s) @
             (case r of
                None \<Rightarrow> []
              | Some node \<Rightarrow>
                  if Completed node \<and> \<not> IsDaemoned node
                  then [AddPodLabel (pod_Name pod) (pod_Namespace pod) LabelKeyCompleted ''true'']
                  else []) \<and>
         wfc_completedPodCache (handlePodUpdate env s pod) =
           (case r of
              None \<Rightarrow> wfc_completedPodCache s
            | Some node \<Rightarrow>
                if Completed node \<and> \<not> IsDaemoned node \<and> \<not> env_addPodLabelErr env
                then cacheSetDefault (wfc_completedPodCache s) (env_now env) (pod_Name pod)
                else wfc_completedPodCache s) \<and>
         (\<forall>node. r = Some node \<and> Completed node \<and> IsDaemoned node \<longrightarrow>
            handlePodUpdate env s pod = s1)"
proof -
  have frame: "wfc_completedPodCache s1 = wfc_completedPodCache s"
    "labelRequests (cluster_requests s1) = labelRequests (cluster_requests s)"
    using reconcileNode_frame [OF assms] by simp_all
  show ?thesis
  proof (cases r)
    case None
    then have "handlePodUpdate env s pod = s1"
      using assms by (simp add: handlePodUpdate_def)
    then show ?thesis using None frame by simp
  next
    case (Some node)
    then have h: "handlePodUpdate env s pod = labelCompleted env s1 pod node"
      using assms by (simp add: handlePodUpdate_def)
    show ?thesis
      unfolding h using Some frame
      by (simp add: labelCompleted_def Let_def labelRequests_def)
  qed
qed

text \<open>The two example observations, evaluated up to the last block.\<close>

lemma ex_reconcile_succeeded:
  "snd (reconcileNode ex_env ex_system ex_pod) =
     Some (ex_runningNode\<lparr>node_Phase := NodeSucceeded, node_FinishedAt := 30\<rparr>)"
  by (simp add: handle_defs stage_defs ex_pod_def ex_terminated_def
      ex_runningNode_def ex_workflow_def ex_system_def ex_env_def)

lemma ex_reconcile_daemon:
  "snd (reconcileNode ex_env ex_system ex_daemonPod) =
     Some (ex_runningNode\<lparr>node_Phase := NodeSucceeded, node_Daemoned := Some True,
       node_PodIP := ''10.0.0.7'', node_FinishedAt := 100\<rparr>)"
  by (auto simp: handle_defs stage_defs ex_pod_def ex_terminated_def ex_daemonPod_def ex_running_def
      ex_daemonTemplate_def ex_unmarshalTemplate_def ex_runningNode_def ex_workflow_def ex_system_def ex_env_def)

text \<open>
  Witness of C5. The succeeded pod, with its node Running: the node becomes Succeeded and is
  not daemoned, the label request is sent and the name cached. The ready daemon pod: the
  node becomes Succeeded and daemoned, no label request is sent and nothing is cached.
\<close>

theorem handlePodUpdate_labelling_witness:
  "snd (reconcileNode ex_env ex_system ex_pod) =
     Some (ex_runningNode\<lparr>node_Phase := NodeSucceeded, node_FinishedAt := 30\<rparr>) \<and>
   labelRequests (cluster_requests (handlePodUpdate ex_env ex_system ex_pod)) =
     [AddPodLabel ''step-1'' ''default'' LabelKeyCompleted ''true''] \<and>
   wfc_completedPodCache (handlePodUpdate ex_env ex_system ex_pod) =
     [''step-1'' \<mapsto> 100 + defaultExpiration] \<and>
   snd (reconcileNode ex_env ex_system ex_daemonPod) =
     Some (ex_runningNode\<lparr>node_Phase := NodeSucceeded, node_Daemoned := Some True,
       node_PodIP := ''10.0.0.7'', node_FinishedAt := 100\<rparr>) \<and>
   labelRequests (cluster_requests (handlePodUpdate ex_env ex_system ex_daemonPod)) = [] \<and>
   wfc_completedPodCache (handlePodUpdate ex_env ex_system ex_daemonPod) = Map.empty"
proof -
  note r1 = ex_reconcile_succeeded
  note r2 = ex_reconcile_daemon
  have t1: "reconcileNode ex_env ex_system ex_pod =
      (fst (reconcileNode ex_env ex_system ex_pod), snd (reconcileNode ex_env ex_system ex_pod))"
    by simp
  have t2: "reconcileNode ex_env ex_system ex_daemonPod =
      (fst (reconcileNode ex_env ex_system ex_daemonPod),
       snd (reconcileNode ex_env ex_system ex_daemonPod))"
    by simp
  have p: "pod_Name ex_pod = ''step-1''" "pod_Namespace ex_pod = ''default''"
    "pod_Name ex_daemonPod = ''step-1''" "pod_Namespace ex_daemonPod = ''default''"
    by (simp_all add: ex_pod_def ex_daemonPod_def)
  have e: "env_now ex_env = 100" "\<not> env_addPodLabelErr ex_env"
    by (simp_all add: ex_env_def)
  have s: "cluster_requests ex_system = []" "wfc_completedPodCache ex_system = Map.empty"
    by (simp_all add: ex_system_def)
  have n1: "Completed (ex_runningNode\<lparr>node_Phase := NodeSucceeded, node_FinishedAt := 30\<rparr>)"
    "\<not> IsDaemoned (ex_runningNode\<lparr>node_Phase := NodeSucceeded, node_FinishedAt := 30\<rparr>)"
    by (simp_all add: Completed_def IsDaemoned_def ex_runningNode_def)
  have n2: "IsDaemoned (ex_runningNode\<lparr>node_Phase := NodeSucceeded, node_Daemoned := Some True,
      node_PodIP := ''10.0.0.7'', node_FinishedAt := 100\<rparr>)"
    by (simp add: IsDaemoned_def)
  have w1: "labelRequests (cluster_requests (handlePodUpdate ex_env ex_system ex_pod)) =
        [AddPodLabel ''step-1'' ''default'' LabelKeyCompleted ''true''] \<and>
      wfc_completedPodCache (handlePodUpdate ex_env ex_system ex_pod) =
        [''step-1'' \<mapsto> 100 + defaultExpiration]"
    using handlePodUpdate_labelling [OF t1] unfolding r1
    by (simp add: p e s n1 labelRequests_def cacheSetDefault_def)
  have w2: "labelRequests (cluster_requests (handlePodUpdate ex_env ex_system ex_daemonPod)) = [] \<and>
      wfc_completedPodCache (handlePodUpdate ex_env ex_system ex_daemonPod) = Map.empty"
    using handlePodUpdate_labelling [OF t2] unfolding r2
    by (simp add: p e s n2 labelRequests_def)
  from r1 r2 w1 w2 show ?thesis by blast
qed

text \<open>An observation whose pod name is found in the cache changes nothing.\<close>

lemma handlePodUpdate_cache_hit:
  "cacheGet (wfc_completedPodCache s) (env_now env) (pod_Name pod) \<Longrightarrow>
     handlePodUpdate env s pod = s"
  by (simp add: handlePodUpdate_def reconcileNode_def)

text \<open>A call never removes a cache entry and never moves its expiration backwards.\<close>

lemma handlePodUpdate_cache_kept:
  assumes "wfc_completedPodCache s k = Some e"
  shows "\<exists>e'. wfc_completedPodCache (handlePodUpdate env s pod) k = Some e' \<and> e \<le> e'"
proof -
  obtain s1 r where rec: "reconcileNode env s pod = (s1, r)"
    by (cases "reconcileNode env s pod")
  have frame: "wfc_completedPodCache s1 = wfc_completedPodCache s"
    using reconcileNode_frame [OF rec] by simp
  show ?thesis
  proof (cases r)
    case None
    then show ?thesis using rec frame assms by (simp add: handlePodUpdate_def)
  next
    case (Some node)
    then have h: "handlePodUpdate env s pod = labelCompleted env s1 pod node"
      using rec by (simp add: handlePodUpdate_def)
    show ?thesis
    proof (cases "k = pod_Name pod")
      case False
      then show ?thesis
        unfolding h using frame assms
        by (simp add: labelCompleted_def Let_def cacheSetDefault_def)
    next
      case True
      have "\<not> cacheGet (wfc_completedPodCache s) (env_now env) (pod_Name pod)"
        using reconcileNode_reached rec Some by blast
      then have "e < env_now env" using assms True by (simp add: cacheGet_def)
      then have "e \<le> env_now env + defaultExpiration" by (simp add: defaultExpiration_def)
      then show ?thesis
        unfolding h using frame assms True
        by (simp add: labelCompleted_def Let_def cacheSetDefault_def)
    qed
  qed
qed

lemma handlePodUpdates_cache_kept:
  "wfc_completedPodCache s k = Some e \<Longrightarrow>
     \<exists>e'. wfc_completedPodCache (handlePodUpdates evs s) k = Some e' \<and> e \<le> e'"
proof (induction evs arbitrary: s e)
  case Nil
  then show ?case by simp
next
  case (Cons ev evs)
  obtain env pod where ev: "ev = (env, pod)" by (cases ev)
  obtain e1 where e1: "wfc_completedPodCache (handlePodUpdate env s pod) k = Some e1" "e \<le> e1"
    using handlePodUpdate_cache_kept [OF Cons.prems] by blast
  obtain e' where "wfc_completedPodCache (handlePodUpdates evs (handlePodUpdate env s pod)) k =
      Some e'" "e1 \<le> e'"
    using Cons.IH [OF e1(1)] by blast
  then show ?case using e1(2) ev by auto
qed

text \<open>
  C10, as amended. The completed-pod cache is keyed by pod name alone. After a call of
  \<^verbatim>\<open>handlePodUpdate\<close> that labels the pod successfully, the cache holds the pod's name with an
  expiration one hour after the call; and after any further sequence of observations, an
  observation of a pod of that name made no later than that expiration, whatever the
  namespace and the rest of the pod are, changes nothing: no request is sent, the cache and
  the stored workflows are as before.
\<close>

theorem handlePodUpdate_cache_by_name:
  assumes "reconcileNode env s pod = (s1, Some node)"
    and "Completed node" and "\<not> IsDaemoned node" and "\<not> env_addPodLabelErr env"
    and "pod_Name pod' = pod_Name pod"
    and "env_now env' \<le> env_now env + defaultExpiration"
  shows "wfc_completedPodCache (handlePodUpdate env s pod) (pod_Name pod) =
           Some (env_now env + defaultExpiration) \<and>
         handlePodUpdate env' (handlePodUpdates evs (handlePodUpdate env s pod)) pod' =
           handlePodUpdates evs (handlePodUpdate env s pod)"
proof -
  have h: "handlePodUpdate env s pod = labelCompleted env s1 pod node"
    using assms(1) by (simp add: handlePodUpdate_def)
  have ins: "wfc_completedPodCache (handlePodUpdate env s pod) (pod_Name pod) =
      Some (env_now env + defaultExpiration)"
    unfolding h using assms(2-4) by (simp add: labelCompleted_def Let_def cacheSetDefault_def)
  obtain e' where e': "wfc_completedPodCache (handlePodUpdates evs (handlePodUpdate env s pod))
      (pod_Name pod) = Some e'" "env_now env + defaultExpiration \<le> e'"
    using handlePodUpdates_cache_kept [OF ins] by blast
  have "cacheGet (wfc_completedPodCache (handlePodUpdates evs (handlePodUpdate env s pod)))
      (env_now env') (pod_Name pod')"
    using e' assms(5,6) by (simp add: cacheGet_def)
  then show ?thesis using ins handlePodUpdate_cache_hit by blast
qed

text \<open>
  Witness of C10 as amended. The succeeded pod is reconciled and labelled at time 100; then
  an unrelated pod is observed; then, exactly at the expiration, a pod of the same name in
  the namespace \<^verbatim>\<open>other\<close> is observed, and nothing changes.
\<close>

theorem handlePodUpdate_cache_by_name_witness:
  "wfc_completedPodCache (handlePodUpdate ex_env ex_system ex_pod) (pod_Name ex_pod) =
     Some (100 + defaultExpiration) \<and>
   handlePodUpdate (ex_env\<lparr>env_now := 100 + defaultExpiration\<rparr>)
     (handlePodUpdates [(ex_env\<lparr>env_now := 200\<rparr>, ex_daemonPod\<lparr>pod_Name := ''step-2''\<rparr>)]
        (handlePodUpdate ex_env ex_system ex_pod))
     (ex_pod\<lparr>pod_Namespace := ''other''\<rparr>) =
   handlePodUpdates [(ex_env\<lparr>env_now := 200\<rparr>, ex_daemonPod\<lparr>pod_Name := ''step-2''\<rparr>)]
     (handlePodUpdate ex_env ex_system ex_pod)"
proof -
  have t: "reconcileNode ex_env ex_system ex_pod =
      (fst (reconcileNode ex_env ex_system ex_pod),
       Some (ex_runningNode\<lparr>node_Phase := NodeSucceeded, node_FinishedAt := 30\<rparr>))"
    using ex_reconcile_succeeded by (simp add: prod_eq_iff)
  have n: "Completed (ex_runningNode\<lparr>node_Phase := NodeSucceeded, node_FinishedAt := 30\<rparr>)"
    "\<not> IsDaemoned (ex_runningNode\<lparr>node_Phase := NodeSucceeded, node_FinishedAt := 30\<rparr>)"
    by (simp_all add: Completed_def IsDaemoned_def ex_runningNode_def)
  have e: "\<not> env_addPodLabelErr ex_env" "env_now ex_env = 100"
    by (simp_all add: ex_env_def)
  have p: "pod_Name (ex_pod\<lparr>pod_Namespace := ''other''\<rparr>) = pod_Name ex_pod"
    by simp
  have c: "env_now (ex_env\<lparr>env_now := 100 + defaultExpiration\<rparr>) \<le>
      env_now ex_env + defaultExpiration"
    by (simp add: e)
  show ?thesis
    using handlePodUpdate_cache_by_name [OF t n e(1) p c,
        where evs = "[(ex_env\<lparr>env_now := 200\<rparr>, ex_daemonPod\<lparr>pod_Name := ''step-2''\<rparr>)]"]
    by (simp add: e)
qed

text \<open>
  Counterexample to C10 as stated. The succeeded pod is reconciled and labelled at time 100,
  which caches its name until one hour later. The same pod, observed without the label
  one nanosecond after that expiration, is not stopped at the cache check: a second label
  request is sent.
\<close>

theorem handlePodUpdate_cache_by_name_counterexample:
  "wfc_completedPodCache (handlePodUpdate ex_env ex_system ex_pod) (pod_Name ex_pod) =
     Some (100 + defaultExpiration) \<and>
   labelRequests (cluster_requests (handlePodUpdate ex_env ex_system ex_pod)) =
     [AddPodLabel ''step-1'' ''default'' LabelKeyCompleted ''true''] \<and>
   labelRequests (cluster_requests
     (handlePodUpdate (ex_env\<lparr>env_now := 101 + defaultExpiration\<rparr>)
        (handlePodUpdate ex_env ex_system ex_pod) ex_pod)) =
     [AddPodLabel ''step-1'' ''default'' LabelKeyCompleted ''true'',
      AddPodLabel ''step-1'' ''default'' LabelKeyCompleted ''true'']"
  by (simp add: handle_defs stage_defs ex_pod_def ex_terminated_def
      ex_runningNode_def ex_workflow_def ex_system_def ex_env_def labelRequests_def)

text \<open>The loop over the container statuses asks whether all of them are ready.\<close>

lemma allReady_iff: "allReady ctrs \<longleftrightarrow> (\<forall>c \<in> set ctrs. ctr_Ready c)"
  by (induction ctrs) simp_all

text \<open>
  C9. For a pod in phase Running whose template annotation decodes to a daemon template,
  the switch of \<^verbatim>\<open>handlePodUpdate\<close> yields (Succeeded, true) exactly when every entry of
  \<^verbatim>\<open>containerStatuses\<close> is ready, and returns otherwise; replacing \<^verbatim>\<open>initContainerStatuses\<close> by
  any other list does not change that; with an empty \<^verbatim>\<open>containerStatuses\<close> it yields
  (Succeeded, true); and then, when the pod is not skipped, its workflow is stored with a
  node for the pod that is not terminal, not daemoned, the pod has no outputs annotation
  and the workflow write succeeds, the workflow is stored again with the node Succeeded and
  daemoned, and no label request is sent.
\<close>

theorem handlePodUpdate_running_daemon:
  assumes "pod_Phase pod = PodRunning"
    and "pod_Annotations pod AnnotationKeyTemplate = Some tmplStr"
    and "env_unmarshalTemplate env tmplStr = Some tmpl"
    and "tmpl_Daemon tmpl = Some True"
  shows "derivePhase env pod =
           (if \<forall>c \<in> set (pod_ContainerStatuses pod). ctr_Ready c
            then Some (NodeSucceeded, Some True, []) else None) \<and>
         derivePhase env (pod\<lparr>pod_InitContainerStatuses := inits\<rparr>) = derivePhase env pod \<and>
         (pod_ContainerStatuses pod = [] \<longrightarrow>
            derivePhase env pod = Some (NodeSucceeded, Some True, [])) \<and>
         (pod_ContainerStatuses pod = [] \<and>
          \<not> cacheGet (wfc_completedPodCache s) (env_now env) (pod_Name pod) \<and>
          pod_Labels pod LabelKeyCompleted \<noteq> Some ''true'' \<and>
          pod_Labels pod LabelKeyWorkflow = Some workflowName \<and>
          GetWorkflow env s (pod_Namespace pod) workflowName = Some wflow \<and>
          wf_Nodes wflow (pod_Name pod) = Some node \<and>
          \<not> Completed node \<and> node_Daemoned node = None \<and>
          pod_Annotations pod AnnotationKeyOutputs = None \<and>
          \<not> env_updateWorkflowErr env \<longrightarrow>
            cluster_workflows (handlePodUpdate env s pod) (pod_Namespace pod, workflowName) =
              Some (wflow\<lparr>wf_Nodes := (wf_Nodes wflow)(pod_Name pod \<mapsto>
                node\<lparr>node_Phase := NodeSucceeded, node_Daemoned := Some True,
                  node_PodIP := pod_PodIP pod,
                  node_FinishedAt :=
                    (if IsZero (node_FinishedAt node) then env_now env
                     else node_FinishedAt node)\<rparr>)\<rparr>) \<and>
            labelRequests (cluster_requests (handlePodUpdate env s pod)) =
              labelRequests (cluster_requests s))"
proof -
  have d: "derivePhase env pod =
      (if \<forall>c \<in> set (pod_ContainerStatuses pod). ctr_Ready c
       then Some (NodeSucceeded, Some True, []) else None)"
    using assms by (simp add: derivePhase_def allReady_iff)
  have i: "derivePhase env (pod\<lparr>pod_InitContainerStatuses := inits\<rparr>) = derivePhase env pod"
    using assms by (simp add: derivePhase_def)
  have e: "cluster_workflows (handlePodUpdate env s pod) (pod_Namespace pod, workflowName) =
        Some (wflow\<lparr>wf_Nodes := (wf_Nodes wflow)(pod_Name pod \<mapsto>
          node\<lparr>node_Phase := NodeSucceeded, node_Daemoned := Some True,
            node_PodIP := pod_PodIP pod,
            node_FinishedAt :=
              (if IsZero (node_FinishedAt node) then env_now env
               else node_FinishedAt node)\<rparr>)\<rparr>) \<and>
      labelRequests (cluster_requests (handlePodUpdate env s pod)) =
        labelRequests (cluster_requests s)"
    if h: "pod_ContainerStatuses pod = []"
      "\<not> cacheGet (wfc_completedPodCache s) (env_now env) (pod_Name pod)"
      "pod_Labels pod LabelKeyCompleted \<noteq> Some ''true''"
      "pod_Labels pod LabelKeyWorkflow = Some workflowName"
      "GetWorkflow env s (pod_Namespace pod) workflowName = Some wflow"
      "wf_Nodes wflow (pod_Name pod) = Some node"
      "\<not> Completed node" "node_Daemoned node = None"
      "pod_Annotations pod AnnotationKeyOutputs = None"
      "\<not> env_updateWorkflowErr env"
  proof -
    let ?node' = "node\<lparr>node_Phase := NodeSucceeded, node_Daemoned := Some True,
      node_PodIP := pod_PodIP pod,
      node_FinishedAt :=
        (if IsZero (node_FinishedAt node) then env_now env else node_FinishedAt node)\<rparr>"
    have ph: "node_Phase node \<noteq> NodeSucceeded"
      using h(7) by (auto simp: Completed_def)
    have a: "applyUpdates (env_unmarshalOutputs env) (env_now env) pod node NodeSucceeded
        (Some True) [] = (?node', True)"
      using h(7,8,9) ph
      by (simp add: applyUpdates_def updatePhase_def updateDaemoned_def updateOutputs_def
          updateMessage_def updateFinishedAt_def Completed_def IsDaemoned_def Let_def
          del: not_None_eq)
    have l: "lookupStr (pod_Labels pod) LabelKeyCompleted \<noteq> ''true''"
      using h(3) by (auto simp: lookupStr_def split: option.splits)
    have dp: "derivePhase env pod = Some (NodeSucceeded, Some True, [])"
      using d h(1) by simp
    show ?thesis
      using h(2,4,5,6,10) l dp a
      by (simp add: handlePodUpdate_def reconcileNode_def labelCompleted_def Completed_def
          IsDaemoned_def labelRequests_def Let_def)
  qed
  from d i e show ?thesis by simp
qed

text \<open>
  Witness of C9: the running daemon pod with an empty \<^verbatim>\<open>containerStatuses\<close>, also with an
  init container that is not ready, yields (Succeeded, true), and its Running node is
  stored as Succeeded and daemoned.
\<close>

theorem handlePodUpdate_running_daemon_witness:
  "derivePhase ex_env (ex_daemonPod\<lparr>pod_ContainerStatuses := []\<rparr>) =
     Some (NodeSucceeded, Some True, []) \<and>
   derivePhase ex_env
     (ex_daemonPod\<lparr>pod_ContainerStatuses := [],
        pod_InitContainerStatuses := [ex_running ''init'' False]\<rparr>) =
     Some (NodeSucceeded, Some True, []) \<and>
   cluster_workflows (handlePodUpdate ex_env ex_system (ex_daemonPod\<lparr>pod_ContainerStatuses := []\<rparr>))
     (''default'', ''wf-1'') =
     Some (ex_workflow\<lparr>wf_Nodes := (wf_Nodes ex_workflow)(''step-1'' \<mapsto>
       ex_runningNode\<lparr>node_Phase := NodeSucceeded, node_Daemoned := Some True,
         node_PodIP := ''10.0.0.7'', node_FinishedAt := 100\<rparr>)\<rparr>)"
proof -
  let ?pod = "ex_daemonPod\<lparr>pod_ContainerStatuses := []\<rparr>"
  have a: "pod_Phase ?pod = PodRunning"
    "pod_Annotations ?pod AnnotationKeyTemplate = Some ex_daemonTemplate"
    "env_unmarshalTemplate ex_env ex_daemonTemplate = Some \<lparr>tmpl_Daemon = Some True\<rparr>"
    "tmpl_Daemon \<lparr>tmpl_Daemon = Some True\<rparr> = Some True"
    by (simp_all add: ex_daemonPod_def ex_env_def ex_unmarshalTemplate_def)
  have h: "pod_ContainerStatuses ?pod = []"
    "\<not> cacheGet (wfc_completedPodCache ex_system) (env_now ex_env) (pod_Name ?pod)"
    "pod_Labels ?pod LabelKeyCompleted \<noteq> Some ''true''"
    "pod_Labels ?pod LabelKeyWorkflow = Some ''wf-1''"
    "GetWorkflow ex_env ex_system (pod_Namespace ?pod) ''wf-1'' = Some ex_workflow"
    "wf_Nodes ex_workflow (pod_Name ?pod) = Some ex_runningNode"
    "\<not> Completed ex_runningNode" "node_Daemoned ex_runningNode = None"
    "pod_Annotations ?pod AnnotationKeyOutputs = None"
    "\<not> env_updateWorkflowErr ex_env"
    by (simp_all add: ex_daemonPod_def ex_pod_def ex_env_def ex_system_def ex_workflow_def
        ex_runningNode_def cacheGet_def GetWorkflow_def Completed_def LabelKeyCompleted_def
        LabelKeyWorkflow_def AnnotationKeyOutputs_def AnnotationKeyTemplate_def)
  have p: "pod_Namespace ?pod = ''default''" "pod_Name ?pod = ''step-1''"
    "pod_PodIP ?pod = ''10.0.0.7''" "env_now ex_env = 100"
    "IsZero (node_FinishedAt ex_runningNode)"
    by (simp_all add: ex_daemonPod_def ex_pod_def ex_env_def ex_runningNode_def IsZero_def)
  note t = handlePodUpdate_running_daemon [OF a,
      where inits = "[ex_running ''init'' False]" and s = ex_system
        and workflowName = "''wf-1''" and wflow = ex_workflow and node = ex_runningNode]
  have d1: "derivePhase ex_env ?pod = Some (NodeSucceeded, Some True, [])"
    using t h(1) by blast
  have d2: "derivePhase ex_env (?pod\<lparr>pod_InitContainerStatuses := [ex_running ''init'' False]\<rparr>) =
      derivePhase ex_env ?pod"
    using t by blast
  have e: "cluster_workflows (handlePodUpdate ex_env ex_system ?pod)
        (pod_Namespace ?pod, ''wf-1'') =
      Some (ex_workflow\<lparr>wf_Nodes := (wf_Nodes ex_workflow)(pod_Name ?pod \<mapsto>
        ex_runningNode\<lparr>node_Phase := NodeSucceeded, node_Daemoned := Some True,
          node_PodIP := pod_PodIP ?pod,
          node_FinishedAt :=
            (if IsZero (node_FinishedAt ex_runningNode) then env_now ex_env
             else node_FinishedAt ex_runningNode)\<rparr>)\<rparr>)"
    using t h by blast
  show ?thesis
    using d1 d2 e by (simp add: p)
qed

section \<open>Properties of updateConfig\<close>

text \<open>
  C6. When the config map has no payload under the key, or the payload does not parse, or
  the parsed config has an empty \<^verbatim>\<open>executorImage\<close>, \<^verbatim>\<open>updateConfig\<close> returns an error and
  leaves the controller, the stored config included, as it was. Otherwise it returns no
  error and the stored config is the parsed one.
\<close>

theorem updateConfig_rejects_or_replaces:
  "(cm_Data cm configMapKey = None \<or>
    (\<exists>configStr. cm_Data cm configMapKey = Some configStr \<and>
       (unmarshal configStr = None \<or>
        (\<exists>config. unmarshal configStr = Some config \<and> cfg_ExecutorImage config = []))) \<longrightarrow>
      fst (updateConfig configMapKey unmarshal wfc cm) \<noteq> None \<and>
      snd (updateConfig configMapKey unmarshal wfc cm) = wfc) \<and>
   (cm_Data cm configMapKey = Some configStr \<and> unmarshal configStr = Some config \<and>
    cfg_ExecutorImage config \<noteq> [] \<longrightarrow>
      updateConfig configMapKey unmarshal wfc cm = (None, wfc\<lparr>wfc_Config := config\<rparr>))"
proof -
  have absent: "fst (updateConfig configMapKey unmarshal wfc cm) \<noteq> None \<and>
      snd (updateConfig configMapKey unmarshal wfc cm) = wfc"
    if "cm_Data cm configMapKey = None"
    using that by (simp add: updateConfig_def)
  have malformed: "fst (updateConfig configMapKey unmarshal wfc cm) \<noteq> None \<and>
      snd (updateConfig configMapKey unmarshal wfc cm) = wfc"
    if "cm_Data cm configMapKey = Some str" "unmarshal str = None" for str
    using that by (simp add: updateConfig_def)
  have lacking: "fst (updateConfig configMapKey unmarshal wfc cm) \<noteq> None \<and>
      snd (updateConfig configMapKey unmarshal wfc cm) = wfc"
    if "cm_Data cm configMapKey = Some str" "unmarshal str = Some c" "cfg_ExecutorImage c = []"
    for str c
    using that by (simp add: updateConfig_def)
  have good: "updateConfig configMapKey unmarshal wfc cm = (None, wfc\<lparr>wfc_Config := config\<rparr>)"
    if "cm_Data cm configMapKey = Some configStr" "unmarshal configStr = Some config"
      "cfg_ExecutorImage config \<noteq> []"
    using that by (simp add: updateConfig_def)
  from absent malformed lacking good show ?thesis by blast
qed

text \<open>
  Witness of C6: a config map without the key, one whose payload is the truncated document
  \<^verbatim>\<open>{\<close>, one whose payload has no executor image, and one whose payload has it.
\<close>

theorem updateConfig_rejects_or_replaces_witness:
  "fst (updateConfig ''config'' ex_yamlUnmarshal ex_system (ex_configMap None)) \<noteq> None \<and>
   snd (updateConfig ''config'' ex_yamlUnmarshal ex_system (ex_configMap None)) = ex_system \<and>
   fst (updateConfig ''config'' ex_yamlUnmarshal ex_system (ex_configMap (Some ''{''))) \<noteq> None \<and>
   snd (updateConfig ''config'' ex_yamlUnmarshal ex_system (ex_configMap (Some ''{''))) =
     ex_system \<and>
   fst (updateConfig ''config'' ex_yamlUnmarshal ex_system
     (ex_configMap (Some ''namespace: argo''))) \<noteq> None \<and>
   snd (updateConfig ''config'' ex_yamlUnmarshal ex_system
     (ex_configMap (Some ''namespace: argo''))) = ex_system \<and>
   updateConfig ''config'' ex_yamlUnmarshal ex_system
     (ex_configMap (Some ''executorImage: argoproj/argoexec:v2'')) =
     (None, ex_system\<lparr>wfc_Config := ex_config\<lparr>cfg_ExecutorImage := ''argoproj/argoexec:v2''\<rparr>\<rparr>)"
proof -
  have 1: "cm_Data (ex_configMap None) ''config'' = None"
    by (simp add: ex_configMap_def)
  have 2: "cm_Data (ex_configMap (Some ''{'')) ''config'' = Some ''{''"
    "ex_yamlUnmarshal ''{'' = None"
    by (simp_all add: ex_configMap_def ex_yamlUnmarshal_def)
  have 3: "cm_Data (ex_configMap (Some ''namespace: argo'')) ''config'' = Some ''namespace: argo''"
    "ex_yamlUnmarshal ''namespace: argo'' =
       Some \<lparr>cfg_ExecutorImage = [], cfg_ArtifactRepository = None,
         cfg_Namespace = ''argo'', cfg_MatchLabels = Map.empty\<rparr>"
    by (simp_all add: ex_configMap_def ex_yamlUnmarshal_def)
  have 4: "cm_Data (ex_configMap (Some ''executorImage: argoproj/argoexec:v2'')) ''config'' =
      Some ''executorImage: argoproj/argoexec:v2''"
    "ex_yamlUnmarshal ''executorImage: argoproj/argoexec:v2'' =
       Some (ex_config\<lparr>cfg_ExecutorImage := ''argoproj/argoexec:v2''\<rparr>)"
    "cfg_ExecutorImage (ex_config\<lparr>cfg_ExecutorImage := ''argoproj/argoexec:v2''\<rparr>) \<noteq> []"
    by (simp_all add: ex_configMap_def ex_yamlUnmarshal_def)
  note t = updateConfig_rejects_or_replaces [where configMapKey = "''config''"
      and unmarshal = ex_yamlUnmarshal and wfc = ex_system]
  have a: "fst (updateConfig ''config'' ex_yamlUnmarshal ex_system (ex_configMap None)) \<noteq> None \<and>
      snd (updateConfig ''config'' ex_yamlUnmarshal ex_system (ex_configMap None)) = ex_system"
    using t [where cm = "ex_configMap None"] 1 by blast
  have b: "fst (updateConfig ''config'' ex_yamlUnmarshal ex_system (ex_configMap (Some ''{''))) \<noteq>
        None \<and>
      snd (updateConfig ''config'' ex_yamlUnmarshal ex_system (ex_configMap (Some ''{''))) =
        ex_system"
    using t [where cm = "ex_configMap (Some ''{'')"] 2 by blast
  have c: "fst (updateConfig ''config'' ex_yamlUnmarshal ex_system
        (ex_configMap (Some ''namespace: argo''))) \<noteq> None \<and>
      snd (updateConfig ''config'' ex_yamlUnmarshal ex_system
        (ex_configMap (Some ''namespace: argo''))) = ex_system"
    using t [where cm = "ex_configMap (Some ''namespace: argo'')"] 3 by fastforce
  have d: "updateConfig ''config'' ex_yamlUnmarshal ex_system
        (ex_configMap (Some ''executorImage: argoproj/argoexec:v2'')) =
      (None, ex_system\<lparr>wfc_Config := ex_config\<lparr>cfg_ExecutorImage := ''argoproj/argoexec:v2''\<rparr>\<rparr>)"
    using t [where cm = "ex_configMap (Some ''executorImage: argoproj/argoexec:v2'')"
        and configStr = "''executorImage: argoproj/argoexec:v2''"
        and config = "ex_config\<lparr>cfg_ExecutorImage := ''argoproj/argoexec:v2''\<rparr>"] 4
    by blast
  from a b c d show ?thesis by blast
qed

end
